theory Spec2Isabelle
  imports Complex_Main "HOL-Library.Signed_Division" "HOL-Library.Log_Nat"
begin

section \<open>The repositioning planner \<open>CrocReposition\<close>\<close>

text \<open>
  The source is the class \<open>CrocReposition\<close> (second document of
  \<open>LeaderboardPointsPage.types.ts\<close>). Conventions of the embedding:
  \<^item> a JavaScript \<open>number\<close> holding a tick is an \<open>int\<close>; a \<open>number\<close> holding a
    price, a fraction or the impact is a \<open>number\<close>, an IEEE double: a finite value, an
    infinity or \<open>NaN\<close>, with the arithmetic of doubles, every result rounded to the
    nearest double, ties to even;
  \<^item> a \<open>BigNumber\<close> is an \<open>int\<close>; \<open>BigNumber.div\<close> truncates towards zero, which is
    \<open>sdiv\<close>; the liquidity of the target is the integer that \<open>BigNumber.from\<close> makes of
    it;
  \<^item> a \<open>Promise\<close> is modelled by its outcome: \<open>Inl e\<close> when it rejects (or the async
    function throws), \<open>Inr v\<close> when it fulfils with \<open>v\<close>; \<open>await\<close> sequences
    two of them;
  \<^item> functions, constants and methods that the class imports but whose code is not part
    of the sources are fields of the record \<open>CrocLib\<close>, a parameter of every method.
\<close>

subsection \<open>Errors and promises\<close>

text \<open>
  \<open>PositionNotOutOfRange\<close> is \<open>new Error('Rebalance position not out of range')\<close>;
  \<open>NumericFault\<close> and \<open>InvalidArgument\<close> are the errors of \<open>BigNumber.from\<close>; the two
  others are rejections of the collaborators (reads, and the submission).
\<close>

datatype error =
  PositionNotOutOfRange | NumericFault | InvalidArgument | RemoteReadFailure | SubmissionFailure

type_synonym 'a promise = "error + 'a"

definition await :: "'a promise \<Rightarrow> ('a \<Rightarrow> 'b promise) \<Rightarrow> 'b promise" where
  "await p k = (case p of Inl e \<Rightarrow> Inl e | Inr v \<Rightarrow> k v)"

definition then_promise :: "'a promise \<Rightarrow> ('a \<Rightarrow> 'b) \<Rightarrow> 'b promise" where
  "then_promise p f = (case p of Inl e \<Rightarrow> Inl e | Inr v \<Rightarrow> Inr (f v))"

subsection \<open>Numbers\<close>

text \<open>
  A \<open>number\<close> is a double. \<open>Num x\<close> is the finite double of value \<open>x\<close> (the two
  zeros are one value); the operations below return \<open>Num x\<close> only for values \<open>x\<close> that
  a double has, when their arguments are doubles.

  \<open>fl x\<close> is the double nearest to the real \<open>x\<close>, ties to the even significand, and an
  infinity when the rounded value reaches \<open>2 ^ 1024\<close>. \<open>binade x\<close> is the exponent \<open>e\<close> with
  \<open>2 ^ e \<le> \<bar>x\<bar> < 2 ^ (e + 1)\<close>, not below \<open>- 1022\<close> (the subnormal doubles share the
  spacing of the smallest normal ones); the doubles of that binade are the multiples of
  \<open>ulp x\<close>, 52 binary places further down.
\<close>

datatype number = Num real | PosInf | NegInf | NaN

definition binade :: "real \<Rightarrow> int" where
  "binade x =
     max (if 1 \<le> \<bar>x\<bar> then bitlen \<lfloor>\<bar>x\<bar>\<rfloor> - 1 else - bitlen (\<lceil>1 / \<bar>x\<bar>\<rceil> - 1)) (- 1022)"

definition ulp :: "real \<Rightarrow> real" where
  "ulp x = 2 powi (binade x - 52)"

definition round_half_even :: "real \<Rightarrow> int" where
  "round_half_even q =
     (let f = \<lfloor>q\<rfloor>; d = q - of_int f
      in if d < 1 / 2 then f else if 1 / 2 < d then f + 1
         else if even f then f else f + 1)"

definition overflow_threshold :: real where
  "overflow_threshold = 2 ^ 1024"

definition fl :: "real \<Rightarrow> number" where
  "fl x =
     (if x = 0 then Num 0
      else let r = of_int (round_half_even (x / ulp x)) * ulp x
           in if overflow_threshold \<le> r then PosInf
              else if r \<le> - overflow_threshold then NegInf
              else Num r)"

text \<open>The operators \<open>+\<close>, \<open>-\<close> and \<open>*\<close> of JavaScript, \<open>Math.min\<close> and \<open>Math.floor\<close>.\<close>

fun num_neg :: "number \<Rightarrow> number" where
  "num_neg (Num x) = Num (- x)"
| "num_neg PosInf = NegInf"
| "num_neg NegInf = PosInf"
| "num_neg NaN = NaN"

fun num_add :: "number \<Rightarrow> number \<Rightarrow> number" where
  "num_add NaN y = NaN"
| "num_add x NaN = NaN"
| "num_add PosInf NegInf = NaN"
| "num_add NegInf PosInf = NaN"
| "num_add PosInf y = PosInf"
| "num_add x PosInf = PosInf"
| "num_add NegInf y = NegInf"
| "num_add x NegInf = NegInf"
| "num_add (Num x) (Num y) = fl (x + y)"

definition num_sub :: "number \<Rightarrow> number \<Rightarrow> number" where
  "num_sub x y = num_add x (num_neg y)"

text \<open>The sign of an infinite product: the infinity itself, or the opposite one.\<close>

definition signed_inf :: "number \<Rightarrow> real \<Rightarrow> number" where
  "signed_inf i x = (if x = 0 then NaN else if 0 < x then i else num_neg i)"

fun num_mul :: "number \<Rightarrow> number \<Rightarrow> number" where
  "num_mul NaN y = NaN"
| "num_mul x NaN = NaN"
| "num_mul (Num x) (Num y) = fl (x * y)"
| "num_mul (Num x) i = signed_inf i x"
| "num_mul i (Num y) = signed_inf i y"
| "num_mul PosInf i = i"
| "num_mul NegInf i = num_neg i"

fun num_min :: "number \<Rightarrow> number \<Rightarrow> number" where
  "num_min NaN y = NaN"
| "num_min x NaN = NaN"
| "num_min NegInf y = NegInf"
| "num_min x NegInf = NegInf"
| "num_min PosInf y = y"
| "num_min x PosInf = x"
| "num_min (Num x) (Num y) = Num (min x y)"

fun num_floor :: "number \<Rightarrow> number" where
  "num_floor (Num x) = Num (of_int \<lfloor>x\<rfloor>)"
| "num_floor x = x"

text \<open>The numbers that \<open>||\<close> keeps: all but zero and \<open>NaN\<close>.\<close>

fun truthy :: "number \<Rightarrow> bool" where
  "truthy (Num x) = (x \<noteq> 0)"
| "truthy NaN = False"
| "truthy x = True"

text \<open>
  \<open>BigNumber.from\<close> of ethers, applied to a number: a fractional value is the numeric
  fault "underflow", a value outside the safe integers
  (\<open>\<bar>x\<bar> \<ge> 2 ^ 53 - 1\<close>, the infinities included) the numeric fault "overflow", and
  \<open>NaN\<close> is not a \<open>BigNumber\<close> string.
\<close>

fun BigNumber_from :: "number \<Rightarrow> int promise" where
  "BigNumber_from (Num x) =
     (if x \<noteq> of_int \<lfloor>x\<rfloor> then Inl NumericFault
      else if 2 ^ 53 - 1 \<le> x \<or> x \<le> - (2 ^ 53 - 1) then Inl NumericFault
      else Inr \<lfloor>x\<rfloor>)"
| "BigNumber_from NaN = Inl InvalidArgument"
| "BigNumber_from x = Inl NumericFault"

text \<open>The numbers of the spec's fractions: finite, from \<open>0\<close> to \<open>1\<close>.\<close>

fun unit_fraction :: "number \<Rightarrow> bool" where
  "unit_fraction (Num x) = (0 \<le> x \<and> x \<le> 1)"
| "unit_fraction x = False"

text \<open>The numbers that are not below zero, and those that are not below one.\<close>

fun at_least :: "real \<Rightarrow> number \<Rightarrow> bool" where
  "at_least c (Num x) = (c \<le> x)"
| "at_least c PosInf = True"
| "at_least c x = False"

subsection \<open>Data\<close>

type_synonym TickRange = "int \<times> int"

text \<open>\<open>TickRange | AmbientRange\<close>, the type of the mint target.\<close>

datatype MintRange = Ambient | Concentrated TickRange

record RepositionTarget =
  mint :: MintRange
  burn :: TickRange
  target_liquidity :: int

record CrocRepositionOpts =
  opts_impact :: "number option"

record CrocTokenView =
  tokenAddr :: string

text \<open>What the methods read of \<open>await pool.context\<close>: \<open>chain.poolIndex\<close> and
  \<open>chain.proxyPaths.long\<close>.\<close>

record CrocContext =
  poolIndex :: int
  proxyPaths_long :: int

text \<open>The pool view; \<open>pool_spotPrice\<close> and \<open>pool_spotTick\<close> are the promises that
  \<open>pool.spotPrice()\<close> and \<open>pool.spotTick()\<close> return.\<close>

record CrocPoolView =
  baseToken :: CrocTokenView
  quoteToken :: CrocTokenView
  pool_context :: "CrocContext promise"
  pool_spotPrice :: "number promise"
  pool_spotTick :: "int promise"

record CrocReposition =
  pool :: CrocPoolView
  burnRange :: TickRange
  mintRange :: MintRange
  liquidity :: int
  spotPrice :: "number promise"
  spotTick :: "int promise"
  impact :: number

text \<open>The literal \<open>0.02\<close> is the double nearest to it.\<close>

definition DEFAULT_REBAL_SLIPPAGE :: number where
  "DEFAULT_REBAL_SLIPPAGE = fl 0.02"

text \<open>
  The constructor. \<open>opts?.impact || DEFAULT_REBAL_SLIPPAGE\<close> takes the default when the
  option is absent and when it is falsy: zero or \<open>NaN\<close>.
\<close>

definition new_CrocReposition ::
  "CrocPoolView \<Rightarrow> RepositionTarget \<Rightarrow> CrocRepositionOpts \<Rightarrow> CrocReposition" where
  "new_CrocReposition pl target opts =
     \<lparr> pool = pl,
       burnRange = burn target,
       mintRange = mint target,
       liquidity = target_liquidity target,
       spotPrice = pool_spotPrice pl,
       spotTick = pool_spotTick pl,
       impact = (case opts_impact opts of
                   None \<Rightarrow> DEFAULT_REBAL_SLIPPAGE
                 | Some i \<Rightarrow> if truthy i then i else DEFAULT_REBAL_SLIPPAGE) \<rparr>"

subsection \<open>The directive\<close>

text \<open>
  Modelled from the spec: the class \<open>OrderDirective\<close> and the type \<open>PoolDirective\<close> of
  \<open>../encoding/longform\<close> are not part of the sources. The spec describes the directive as
  an open token, then hops, each hop holding a settlement leg and pool legs, each pool leg
  holding a swap sub-directive and range-burn, range-mint or ambient-mint sub-directives,
  all kept in the order in which they were appended. The fields are those the planner
  reads or assigns (\<open>open\<close>, \<open>hops\<close>, \<open>settlement\<close>, \<open>limitQty\<close>, \<open>swap\<close>,
  \<open>chain.swapDefer\<close>, \<open>rollType\<close>, \<open>qty\<close>, \<open>isBuy\<close>, \<open>inBaseQty\<close>,
  \<open>limitPrice\<close>). A pool leg starts with the swap \<open>no_swap\<close> (no quantity, no roll) and
  without liquidity legs; a settlement leg starts with the limit the constructor is given.
\<close>

record SettlementDirective =
  token :: string
  limitQty :: int

record SwapDirective =
  isBuy :: bool
  inBaseQty :: bool
  rollType :: int
  qty :: int
  limitPrice :: int

datatype PassiveKind = RangeBurn | RangeMint | AmbientMint

record PassiveDirective =
  kind :: PassiveKind
  ticks :: "TickRange option"
  passive_liquidity :: int
  passive_rollType :: int

record ChainDirective =
  swapDefer :: bool

record PoolDirective =
  poolIdx :: int
  pool_passive :: "PassiveDirective list"
  pool_swap :: SwapDirective
  pool_chain :: ChainDirective

record HopDirective =
  settlement :: SettlementDirective
  pools :: "PoolDirective list"

record OrderDirective =
  open_settlement :: SettlementDirective
  hops :: "HopDirective list"

definition no_swap :: SwapDirective where
  "no_swap = \<lparr> isBuy = False, inBaseQty = False, rollType = 0, qty = 0, limitPrice = 0 \<rparr>"

definition new_PoolDirective :: "int \<Rightarrow> PoolDirective" where
  "new_PoolDirective idx =
     \<lparr> poolIdx = idx, pool_passive = [], pool_swap = no_swap,
       pool_chain = \<lparr> swapDefer = False \<rparr> \<rparr>"

definition new_OrderDirective :: "int \<Rightarrow> string \<Rightarrow> OrderDirective" where
  "new_OrderDirective startLimit openToken =
     \<lparr> open_settlement = \<lparr> token = openToken, limitQty = startLimit \<rparr>, hops = [] \<rparr>"

text \<open>The last element of a list, and the element at a position, updated in place; a
  list without such an element is left as it is.\<close>

fun map_last :: "('a \<Rightarrow> 'a) \<Rightarrow> 'a list \<Rightarrow> 'a list" where
  "map_last f [] = []"
| "map_last f [x] = [f x]"
| "map_last f (x # y # ys) = x # map_last f (y # ys)"

fun map_at :: "nat \<Rightarrow> ('a \<Rightarrow> 'a) \<Rightarrow> 'a list \<Rightarrow> 'a list" where
  "map_at n f [] = []"
| "map_at 0 f (x # xs) = f x # xs"
| "map_at (Suc n) f (x # xs) = x # map_at n f xs"

definition appendHop :: "int \<Rightarrow> string \<Rightarrow> OrderDirective \<Rightarrow> OrderDirective" where
  "appendHop startLimit nextToken d =
     d\<lparr> hops := hops d @ [\<lparr> settlement = \<lparr> token = nextToken, limitQty = startLimit \<rparr>,
                             pools = [] \<rparr>] \<rparr>"

text \<open>
  \<open>appendPool\<close> adds a pool leg to the last hop and returns it. The planner keeps the
  returned object and assigns to its fields later, so the model returns a reference: the
  position of the hop and of the pool leg in the directive.
\<close>

type_synonym PoolRef = "nat \<times> nat"

definition appendPool :: "int \<Rightarrow> OrderDirective \<Rightarrow> PoolRef \<times> OrderDirective" where
  "appendPool idx d =
     ((length (hops d) - 1,
       (case rev (hops d) of [] \<Rightarrow> 0 | h # _ \<Rightarrow> length (pools h))),
      d\<lparr> hops := map_last (\<lambda>h. h\<lparr> pools := pools h @ [new_PoolDirective idx] \<rparr>) (hops d) \<rparr>)"

definition update_pool :: "PoolRef \<Rightarrow> (PoolDirective \<Rightarrow> PoolDirective) \<Rightarrow> OrderDirective
                             \<Rightarrow> OrderDirective" where
  "update_pool r f d =
     d\<lparr> hops := map_at (fst r) (\<lambda>h. h\<lparr> pools := map_at (snd r) f (pools h) \<rparr>) (hops d) \<rparr>"

text \<open>The liquidity legs go to the last pool leg of the last hop.\<close>

definition appendPassive :: "PassiveDirective \<Rightarrow> OrderDirective \<Rightarrow> OrderDirective" where
  "appendPassive x d =
     d\<lparr> hops := map_last
          (\<lambda>h. h\<lparr> pools := map_last (\<lambda>pl. pl\<lparr> pool_passive := pool_passive pl @ [x] \<rparr>) (pools h) \<rparr>)
          (hops d) \<rparr>"

definition appendRangeBurn :: "int \<Rightarrow> int \<Rightarrow> int \<Rightarrow> OrderDirective \<Rightarrow> OrderDirective" where
  "appendRangeBurn lowTick highTick liq =
     appendPassive \<lparr> kind = RangeBurn, ticks = Some (lowTick, highTick),
                     passive_liquidity = liq, passive_rollType = 0 \<rparr>"

definition appendRangeMint :: "int \<Rightarrow> int \<Rightarrow> int \<Rightarrow> OrderDirective \<Rightarrow> OrderDirective" where
  "appendRangeMint lowTick highTick liq =
     appendPassive \<lparr> kind = RangeMint, ticks = Some (lowTick, highTick),
                     passive_liquidity = liq, passive_rollType = 0 \<rparr>"

definition appendAmbientMint :: "int \<Rightarrow> OrderDirective \<Rightarrow> OrderDirective" where
  "appendAmbientMint liq =
     appendPassive \<lparr> kind = AmbientMint, ticks = None,
                     passive_liquidity = liq, passive_rollType = 0 \<rparr>"

text \<open>
  \<open>mint.rollType = 5\<close>, where \<open>mint\<close> is the leg that \<open>appendAmbientMint\<close> or
  \<open>appendRangeMint\<close> has just returned: the last liquidity leg of the last pool leg.
\<close>

definition set_last_rollType :: "int \<Rightarrow> OrderDirective \<Rightarrow> OrderDirective" where
  "set_last_rollType r d =
     d\<lparr> hops := map_last
          (\<lambda>h. h\<lparr> pools := map_last
             (\<lambda>pl. pl\<lparr> pool_passive := map_last (\<lambda>x. x\<lparr> passive_rollType := r \<rparr>) (pool_passive pl) \<rparr>)
             (pools h) \<rparr>)
          (hops d) \<rparr>"

subsection \<open>Imported helpers\<close>

text \<open>
  The helpers the class imports (\<open>../utils\<close>, \<open>../utils/liquidity\<close>, \<open>../swap\<close>,
  \<open>../tokens\<close>, the \<open>dex\<close> contract of the context) have no code in the sources. They
  are parameters: \<open>calcImpact\<close> stands for \<open>new CrocSwapPlan(...).calcImpact()\<close>
  followed by \<open>.buyQty\<close>, with the constructor's arguments; \<open>toDisplay\<close> for the method
  of a token view; the three \<open>userCmd\<close> fields for \<open>dex.estimateGas.userCmd\<close>,
  \<open>dex.userCmd\<close> (with its gas limit) and \<open>dex.callStatic.userCmd\<close>; the encoded
  directive is a string, as is the transaction response. \<open>settle_limitQty\<close> is the
  limit quantity that a settlement leg has before the planner assigns one.
\<close>

record CrocLib =
  tickToPrice :: "int \<Rightarrow> number"
  concDepositBalance :: "number \<Rightarrow> number \<Rightarrow> number \<Rightarrow> number"
  baseTokenForConcLiq :: "number \<Rightarrow> int \<Rightarrow> number \<Rightarrow> number \<Rightarrow> int"
  quoteTokenForConcLiq :: "number \<Rightarrow> int \<Rightarrow> number \<Rightarrow> number \<Rightarrow> int"
  encodeCrocPrice :: "number \<Rightarrow> int"
  toDisplay :: "CrocTokenView \<Rightarrow> int \<Rightarrow> string promise"
  parseFloat :: "string \<Rightarrow> number"
  calcImpact :: "CrocTokenView \<Rightarrow> CrocTokenView \<Rightarrow> int \<Rightarrow> bool \<Rightarrow> int
                   \<Rightarrow> CrocContext promise \<Rightarrow> number \<Rightarrow> string promise"
  encodeBytes :: "OrderDirective \<Rightarrow> string"
  GAS_PADDING :: int
  estimateGas_userCmd :: "int \<Rightarrow> string \<Rightarrow> int promise"
  userCmd :: "int \<Rightarrow> string \<Rightarrow> int \<Rightarrow> string promise"
  callStatic_userCmd :: "int \<Rightarrow> string \<Rightarrow> string promise"
  settle_limitQty :: int

subsection \<open>Out-of-range direction\<close>

definition isBaseOutOfRange :: "CrocReposition \<Rightarrow> bool promise" where
  "isBaseOutOfRange p =
     await (spotTick p) (\<lambda>spot.
       if spot \<ge> snd (burnRange p) then Inr True
       else if spot < fst (burnRange p) then Inr False
       else Inl PositionNotOutOfRange)"

definition pivotTokens :: "CrocReposition \<Rightarrow> (CrocTokenView \<times> CrocTokenView) promise" where
  "pivotTokens p =
     await (isBaseOutOfRange p) (\<lambda>b.
       if b then Inr (baseToken (pool p), quoteToken (pool p))
       else Inr (quoteToken (pool p), baseToken (pool p)))"

subsection \<open>Collateral and swap quantities\<close>

definition balancePercent :: "CrocLib \<Rightarrow> CrocReposition \<Rightarrow> number promise" where
  "balancePercent lib p =
     (case mintRange p of
        Ambient \<Rightarrow> Inr (Num 0.5)
      | Concentrated r \<Rightarrow>
          await (spotPrice p) (\<lambda>spot.
            let baseQuoteBal = concDepositBalance lib spot
                                 (tickToPrice lib (fst r)) (tickToPrice lib (snd r))
            in await (isBaseOutOfRange p) (\<lambda>b.
                 Inr (if b then num_sub (Num 1.0) baseQuoteBal else baseQuoteBal))))"

definition currentCollateral :: "CrocLib \<Rightarrow> CrocReposition \<Rightarrow> int promise" where
  "currentCollateral lib p =
     await (isBaseOutOfRange p) (\<lambda>b.
       let tokenFn = (if b then baseTokenForConcLiq lib else quoteTokenForConcLiq lib)
       in await (spotPrice p) (\<lambda>spot.
            Inr (tokenFn spot (liquidity p)
                   (tickToPrice lib (fst (burnRange p)))
                   (tickToPrice lib (snd (burnRange p))))))"

definition swapFraction :: "CrocLib \<Rightarrow> CrocReposition \<Rightarrow> int promise" where
  "swapFraction lib p =
     await (balancePercent lib p) (\<lambda>bp.
       let swapProp = num_add bp (impact p)
       in BigNumber_from (num_floor (num_mul (num_min swapProp (Num 1.0)) (Num 10000))))"

definition convertCollateral :: "CrocLib \<Rightarrow> CrocReposition \<Rightarrow> int promise" where
  "convertCollateral lib p =
     await (swapFraction lib p) (\<lambda>balance.
       await (currentCollateral lib p) (\<lambda>collat.
         Inr ((collat * balance) sdiv 10000)))"

text \<open>
  The local \<open>collat\<close> of \<open>mintInput\<close>: the collateral that is not swapped, in the
  smallest unit, before \<open>toDisplay\<close> makes a string of it.
\<close>

definition mintInput_collat :: "CrocLib \<Rightarrow> CrocReposition \<Rightarrow> int promise" where
  "mintInput_collat lib p =
     await (currentCollateral lib p) (\<lambda>c.
       await (convertCollateral lib p) (\<lambda>v. Inr (c - v)))"

definition mintInput :: "CrocLib \<Rightarrow> CrocReposition \<Rightarrow> string promise" where
  "mintInput lib p =
     await (mintInput_collat lib p) (\<lambda>collat.
       await (isBaseOutOfRange p) (\<lambda>b.
         if b then toDisplay lib (baseToken (pool p)) collat
         else toDisplay lib (quoteToken (pool p)) collat))"

definition swapOutput :: "CrocLib \<Rightarrow> CrocReposition \<Rightarrow> string promise" where
  "swapOutput lib p =
     await (pivotTokens p) (\<lambda>(sellToken, buyToken).
       await (convertCollateral lib p) (\<lambda>qty.
         await (pool_context (pool p)) (\<lambda>cntx.
           calcImpact lib sellToken buyToken qty False (poolIndex cntx)
             (pool_context (pool p)) (impact p))))"

definition postBalance :: "CrocLib \<Rightarrow> CrocReposition \<Rightarrow> (number \<times> number) promise" where
  "postBalance lib p =
     (let outside = then_promise (mintInput lib p) (parseFloat lib);
          inside = then_promise (swapOutput lib p) (parseFloat lib)
      in await (isBaseOutOfRange p) (\<lambda>b.
           if b then await outside (\<lambda>x. await inside (\<lambda>y. Inr (x, y)))
           else await inside (\<lambda>x. await outside (\<lambda>y. Inr (x, y)))))"

subsection \<open>Building and submitting the directive\<close>

definition setupSwap :: "CrocLib \<Rightarrow> CrocReposition \<Rightarrow> PoolRef \<Rightarrow> OrderDirective
                           \<Rightarrow> OrderDirective promise" where
  "setupSwap lib p r d =
     await (swapFraction lib p) (\<lambda>frac.
       await (isBaseOutOfRange p) (\<lambda>sellBase.
         let priceMult = (if sellBase then num_add (Num 1) (impact p)
                          else num_sub (Num 1) (impact p))
         in await (spotPrice p) (\<lambda>spot.
              Inr (update_pool r
                     (\<lambda>pl. pl\<lparr> pool_chain := (pool_chain pl)\<lparr> swapDefer := True \<rparr>,
                               pool_swap := (pool_swap pl)\<lparr>
                                 rollType := 4,
                                 qty := frac,
                                 isBuy := sellBase,
                                 inBaseQty := sellBase,
                                 limitPrice := encodeCrocPrice lib
                                                 (num_mul spot priceMult) \<rparr> \<rparr>)
                     d))))"

definition formatDirective :: "CrocLib \<Rightarrow> CrocReposition \<Rightarrow> OrderDirective promise" where
  "formatDirective lib p =
     await (pivotTokens p) (\<lambda>(openToken, closeToken).
       let directive = new_OrderDirective (settle_limitQty lib) (tokenAddr openToken);
           directive = appendHop (settle_limitQty lib) (tokenAddr closeToken) directive
       in await (pool_context (pool p)) (\<lambda>cntx.
            let (pl, directive) = appendPool (poolIndex cntx) directive;
                directive = appendRangeBurn (fst (burnRange p)) (snd (burnRange p))
                              (liquidity p) directive
            in await (setupSwap lib p pl directive) (\<lambda>directive.
                 await (pool_context (pool p)) (\<lambda>cntx.
                   let directive = snd (appendPool (poolIndex cntx) directive);
                       directive =
                         (case mintRange p of
                            Ambient \<Rightarrow> set_last_rollType 5 (appendAmbientMint 0 directive)
                          | Concentrated r \<Rightarrow>
                              set_last_rollType 5 (appendRangeMint (fst r) (snd r) 0 directive));
                       directive = directive\<lparr> open_settlement :=
                                     (open_settlement directive)\<lparr> limitQty := 0 \<rparr> \<rparr>;
                       directive = directive\<lparr> hops :=
                                     map_at 0 (\<lambda>h. h\<lparr> settlement := (settlement h)\<lparr> limitQty := 0 \<rparr> \<rparr>)
                                       (hops directive) \<rparr>
                   in Inr directive))))"

definition rebal :: "CrocLib \<Rightarrow> CrocReposition \<Rightarrow> string promise" where
  "rebal lib p =
     await (formatDirective lib p) (\<lambda>directive.
       await (pool_context (pool p)) (\<lambda>cntx.
         let path = proxyPaths_long cntx
         in await (estimateGas_userCmd lib path (encodeBytes lib directive)) (\<lambda>gasEst.
              userCmd lib path (encodeBytes lib directive) (gasEst + GAS_PADDING lib))))"

definition simStatic :: "CrocLib \<Rightarrow> CrocReposition \<Rightarrow> string promise" where
  "simStatic lib p =
     await (formatDirective lib p) (\<lambda>directive.
       await (pool_context (pool p)) (\<lambda>cntx.
         let path = proxyPaths_long cntx
         in await (pool_context (pool p)) (\<lambda>cntx.
              callStatic_userCmd lib path (encodeBytes lib directive))))"

subsection \<open>Tick to price\<close>

text \<open>
  Modelled from the spec: \<open>tickToPrice\<close> of \<open>../utils\<close> is not part of the sources. The
  spec calls a tick a discretized integer index mapping to a price via a fixed logarithmic
  scale, the price being positive: the price of a tick is the tick-th power of a fixed
  base. The spec does not give the base; it is the first argument, and negative ticks are
  negative powers.
\<close>

definition tickToPrice_scale :: "real \<Rightarrow> int \<Rightarrow> real" where
  "tickToPrice_scale base tick = base powi tick"

subsection \<open>Reading a directive\<close>

text \<open>
  The pool legs of a directive in the order of their occurrence, and the positions of those
  that carry a range burn, a configured swap, and a mint (range or ambient).
\<close>

definition pool_legs :: "OrderDirective \<Rightarrow> PoolDirective list" where
  "pool_legs d = concat (map pools (hops d))"

definition carries_burn :: "PoolDirective \<Rightarrow> bool" where
  "carries_burn pl = (RangeBurn \<in> set (map kind (pool_passive pl)))"

definition carries_swap :: "PoolDirective \<Rightarrow> bool" where
  "carries_swap pl = (pool_swap pl \<noteq> no_swap)"

definition carries_mint :: "PoolDirective \<Rightarrow> bool" where
  "carries_mint pl = (RangeMint \<in> set (map kind (pool_passive pl))
                      \<or> AmbientMint \<in> set (map kind (pool_passive pl)))"

definition legs_where :: "(PoolDirective \<Rightarrow> bool) \<Rightarrow> OrderDirective \<Rightarrow> nat list" where
  "legs_where P d = map fst (filter (\<lambda>(i, pl). P pl) (enumerate 0 (pool_legs d)))"

definition burn_legs :: "OrderDirective \<Rightarrow> nat list" where
  "burn_legs = legs_where carries_burn"

definition swap_legs :: "OrderDirective \<Rightarrow> nat list" where
  "swap_legs = legs_where carries_swap"

definition mint_legs :: "OrderDirective \<Rightarrow> nat list" where
  "mint_legs = legs_where carries_mint"

definition legs_precede :: "nat list \<Rightarrow> nat list \<Rightarrow> bool" where
  "legs_precede xs ys =
     (xs \<noteq> [] \<and> ys \<noteq> [] \<and> list_all (\<lambda>i. list_all (\<lambda>j. i < j) ys) xs)"

definition burn_precedes_swap :: "OrderDirective \<Rightarrow> bool" where
  "burn_precedes_swap d = legs_precede (burn_legs d) (swap_legs d)"

definition swap_precedes_mint :: "OrderDirective \<Rightarrow> bool" where
  "swap_precedes_mint d = legs_precede (swap_legs d) (mint_legs d)"

subsection \<open>Test fixtures\<close>

text \<open>
  Stand-ins for the imported helpers, a pool whose spot price is \<open>1.5\<close>, and the planner
  of the spec's scenarios: burn range \<open>[100, 200]\<close>, liquidity \<open>1000000\<close>, built by
  the constructor for a given spot tick, mint target and impact option. The stand-in for
  \<open>encodeCrocPrice\<close> is \<open>Math.floor(x * 1000)\<close>.
\<close>

definition test_lib :: CrocLib where
  "test_lib =
     \<lparr> tickToPrice = (\<lambda>t. Num (2 powi t)),
       concDepositBalance = (\<lambda>spot lo hi. Num (1 / 4)),
       baseTokenForConcLiq = (\<lambda>spot liq lo hi. 2 * liq),
       quoteTokenForConcLiq = (\<lambda>spot liq lo hi. 3 * liq),
       encodeCrocPrice = (\<lambda>x. case num_floor (num_mul x (Num 1000)) of
                                   Num r \<Rightarrow> \<lfloor>r\<rfloor> | _ \<Rightarrow> 0),
       toDisplay = (\<lambda>tok n. Inr (tokenAddr tok)),
       parseFloat = (\<lambda>s. Num (of_nat (length s))),
       calcImpact = (\<lambda>sell buy q isBuy idx cntx slip. Inr (tokenAddr buy)),
       encodeBytes = (\<lambda>d. ''0x''),
       GAS_PADDING = 30000,
       estimateGas_userCmd = (\<lambda>path bytes. Inr 100000),
       userCmd = (\<lambda>path bytes gas. Inr ''0xtx''),
       callStatic_userCmd = (\<lambda>path bytes. Inr ''0x''),
       settle_limitQty = 1000 \<rparr>"

definition test_pool :: "int \<Rightarrow> CrocPoolView" where
  "test_pool tick =
     \<lparr> baseToken = \<lparr> tokenAddr = ''0xBASE'' \<rparr>,
       quoteToken = \<lparr> tokenAddr = ''0xQUOTE'' \<rparr>,
       pool_context = Inr \<lparr> poolIndex = 36000, proxyPaths_long = 4 \<rparr>,
       pool_spotPrice = Inr (Num (3 / 2)),
       pool_spotTick = Inr tick \<rparr>"

definition test_planner :: "int \<Rightarrow> MintRange \<Rightarrow> number option \<Rightarrow> CrocReposition" where
  "test_planner tick m i =
     new_CrocReposition (test_pool tick)
       \<lparr> mint = m, burn = (100, 200), target_liquidity = 1000000 \<rparr>
       \<lparr> opts_impact = i \<rparr>"

section \<open>Properties\<close>

subsection \<open>Auxiliary facts\<close>

lemma await_simps [simp]: "await (Inl e) k = Inl e" "await (Inr v) k = k v"
  by (simp_all add: await_def)

lemma then_promise_simps [simp]:
  "then_promise (Inl e) f = Inl e" "then_promise (Inr v) f = Inr (f v)"
  by (simp_all add: then_promise_def)

lemmas test_defs =
  test_lib_def test_pool_def test_planner_def new_CrocReposition_def

text \<open>Rounding: a double rounds to itself, and rounding does not leave an interval whose
  ends are doubles.\<close>

lemma round_half_even_of_int: "round_half_even (of_int n) = n"
  by (simp add: round_half_even_def)

lemma round_half_even_le: "q \<le> of_int n \<Longrightarrow> round_half_even q \<le> n"
proof -
  assume q: "q \<le> of_int n"
  have f: "\<lfloor>q\<rfloor> \<le> n" using q by (simp add: floor_le_iff)
  have "\<lfloor>q\<rfloor> + 1 \<le> n" if "of_int \<lfloor>q\<rfloor> < q"
  proof -
    from that q have "(of_int \<lfloor>q\<rfloor> :: real) < of_int n" by linarith
    then show ?thesis by simp
  qed
  then show ?thesis using f by (auto simp add: round_half_even_def Let_def)
qed

lemma round_half_even_ge: "of_int n \<le> q \<Longrightarrow> n \<le> round_half_even q"
proof -
  assume "of_int n \<le> q"
  then have "n \<le> \<lfloor>q\<rfloor>" by (simp add: le_floor_iff)
  then show ?thesis by (auto simp add: round_half_even_def Let_def)
qed

lemma binade_le:
  assumes "x \<noteq> 0" and "\<bar>x\<bar> < 2 powi (j + 1)" and "- 1022 \<le> j"
  shows "binade x \<le> j"
proof (cases "1 \<le> \<bar>x\<bar>")
  case True
  then have "(1::real) < 2 powi (j + 1)" using assms(2) by linarith
  have j: "0 \<le> j"
  proof (rule ccontr)
    assume "\<not> 0 \<le> j"
    then have "j + 1 \<le> 0" by simp
    then have "(2::real) powi (j + 1) \<le> 2 powi 0" by (rule power_int_increasing) simp
    then show False using \<open>1 < 2 powi (j + 1)\<close> by simp
  qed
  have "\<bar>x\<bar> < 2 ^ nat (j + 1)" using assms(2) j by (simp add: power_int_def)
  then have "of_int \<lfloor>\<bar>x\<bar>\<rfloor> < (2::real) ^ nat (j + 1)"
    by (meson le_less_trans of_int_floor_le)
  then have "\<lfloor>\<bar>x\<bar>\<rfloor> < 2 ^ nat (j + 1)"
    by (metis of_int_less_iff of_int_numeral of_int_power)
  then have "bitlen \<lfloor>\<bar>x\<bar>\<rfloor> \<le> j + 1" using j by (simp add: bitlen_le_iff_power)
  then show ?thesis using True assms(3) by (simp add: binade_def)
next
  case False
  show ?thesis
  proof (cases "0 \<le> j")
    case True
    then show ?thesis using False assms(3) bitlen_nonneg [of "\<lceil>1 / \<bar>x\<bar>\<rceil> - 1"]
      by (simp add: binade_def)
  next
    case neg: False
    define w where "w = nat (- j - 1)"
    have jw: "j + 1 = - int w" using neg by (simp add: w_def)
    have pos: "0 < \<bar>x\<bar>" using assms(1) by simp
    have "\<bar>x\<bar> < 1 / 2 ^ w" using assms(2) by (simp add: jw power_int_minus inverse_eq_divide)
    then have "2 ^ w < 1 / \<bar>x\<bar>" using pos by (simp add: field_simps)
    then have "(2::real) ^ w < of_int \<lceil>1 / \<bar>x\<bar>\<rceil>" by (meson le_of_int_ceiling less_le_trans)
    then have "(2::int) ^ w < \<lceil>1 / \<bar>x\<bar>\<rceil>"
      by (metis of_int_less_iff of_int_numeral of_int_power)
    moreover have "nat (int w + 1) - 1 = w" by (simp add: nat_add_distrib)
    ultimately have "2 ^ (nat (int w + 1) - 1) \<le> \<lceil>1 / \<bar>x\<bar>\<rceil> - 1" by simp
    then have "int w + 1 \<le> bitlen (\<lceil>1 / \<bar>x\<bar>\<rceil> - 1)"
      by (simp only: bitlen_ge_iff_power) simp
    then show ?thesis using False assms(3) neg by (simp add: binade_def w_def)
  qed
qed

lemma ulp_eq:
  assumes "binade x - 52 + int d = k"
  shows "ulp x = 2 powi k / 2 ^ d"
proof -
  have "binade x - 52 = k - int d" using assms by simp
  then show ?thesis by (simp add: ulp_def power_int_diff)
qed

lemma of_int_less_two_power:
  "m < 2 ^ n \<Longrightarrow> (of_int m :: real) < 2 ^ n"
proof -
  assume "m < 2 ^ n"
  then have "(of_int m :: real) < of_int (2 ^ n)" by (simp only: of_int_less_iff)
  then show ?thesis by simp
qed

lemma two_power_less: "m < n \<Longrightarrow> (2::real) ^ m < 2 ^ n"
  by (rule power_strict_increasing) simp_all

lemma below_overflow_threshold: "n < 1024 \<Longrightarrow> (2::real) ^ n < overflow_threshold"
  unfolding overflow_threshold_def by (rule two_power_less)

lemma fl_finite:
  assumes "x \<noteq> 0" and "of_int (round_half_even (x / ulp x)) * ulp x = r"
    and "r < overflow_threshold" and "- overflow_threshold < r"
  shows "fl x = Num r"
proof -
  have "\<not> overflow_threshold \<le> r" "\<not> r \<le> - overflow_threshold"
    using assms(3,4) by simp_all
  then show ?thesis using assms(1) by (simp add: fl_def Let_def assms(2))
qed

lemma fl_exact:
  assumes m: "\<bar>m\<bar> < 2 ^ 53" and k: "- 1074 \<le> k" "k \<le> 970"
  shows "fl (of_int m * 2 powi k) = Num (of_int m * 2 powi k)"
proof (cases "m = 0")
  case True
  then show ?thesis by (simp add: fl_def)
next
  case False
  define x :: real where "x = of_int m * 2 powi k"
  have x0: "x \<noteq> 0" using False by (simp add: x_def)
  define j where "j = max (k + 52) (- 1022)"
  have "(of_int \<bar>m\<bar> :: real) < 2 ^ 53" using m by (rule of_int_less_two_power)
  then have "\<bar>x\<bar> < 2 ^ 53 * 2 powi k"
    by (simp add: x_def abs_mult)
  also have "\<dots> = 2 powi (k + 53)" by (simp add: power_int_add)
  finally have ub: "\<bar>x\<bar> < 2 powi (k + 53)" .
  have "(2::real) powi (k + 53) \<le> 2 powi (j + 1)"
    by (rule power_int_increasing) (simp_all add: j_def)
  with ub have "\<bar>x\<bar> < 2 powi (j + 1)" by linarith
  with x0 have "binade x \<le> j" by (rule binade_le) (simp add: j_def)
  then have "0 \<le> k - (binade x - 52)" using k(1) by (simp add: j_def)
  then obtain d :: nat where "k - (binade x - 52) = int d"
    using nonneg_int_cases by blast
  then have d: "binade x - 52 + int d = k" by simp
  have u: "ulp x = 2 powi k / 2 ^ d" using d by (rule ulp_eq)
  have "x / (2 powi k / 2 ^ d) = of_int (m * 2 ^ d)" by (simp add: x_def)
  then have q: "x / ulp x = of_int (m * 2 ^ d)" by (simp only: u)
  have "of_int (round_half_even (x / ulp x)) * ulp x = of_int (m * 2 ^ d) * ulp x"
    by (simp only: q round_half_even_of_int)
  also have "\<dots> = of_int (m * 2 ^ d) * (2 powi k / 2 ^ d)" by (simp only: u)
  also have "\<dots> = x" by (simp add: x_def)
  finally have r: "of_int (round_half_even (x / ulp x)) * ulp x = x" .
  have "(2::real) powi (k + 53) \<le> 2 powi (int 1023)"
    by (rule power_int_increasing) (use k in simp_all)
  then have "(2::real) powi (k + 53) \<le> 2 ^ 1023" by (simp only: power_int_of_nat)
  moreover have "(2::real) ^ 1023 < overflow_threshold"
    by (rule below_overflow_threshold) simp
  ultimately have "\<bar>x\<bar> < overflow_threshold" using ub by linarith
  then have "x < overflow_threshold" "- overflow_threshold < x" by linarith+
  with x0 r have "fl x = Num x" by (rule fl_finite)
  then show ?thesis by (simp only: x_def)
qed

lemma fl_bounded:
  assumes "0 \<le> x" and "x \<le> of_int c" and "c < 2 ^ 52"
  shows "\<exists>r. fl x = Num r \<and> 0 \<le> r \<and> r \<le> of_int c"
proof (cases "x = 0")
  case True
  then show ?thesis using assms by (simp add: fl_def)
next
  case False
  have c52: "(of_int c :: real) < 2 ^ 52" using assms(3) by (rule of_int_less_two_power)
  then have "\<bar>x\<bar> < 2 ^ 52" using assms(1,2) by simp
  then have "\<bar>x\<bar> < 2 powi (51 + 1)" by simp
  with False have "binade x \<le> 51" by (rule binade_le) simp
  then have "0 \<le> 0 - (binade x - 52)" by simp
  then obtain d :: nat where "0 - (binade x - 52) = int d"
    using nonneg_int_cases by blast
  then have d: "binade x - 52 + int d = 0" by simp
  have u: "ulp x = 1 / 2 ^ d" using ulp_eq [OF d] by simp
  have q: "x / ulp x = x * 2 ^ d" by (simp add: u)
  have "x * 2 ^ d \<le> of_int (c * 2 ^ d)" using assms(2) by simp
  then have hi: "round_half_even (x / ulp x) \<le> c * 2 ^ d"
    unfolding q by (rule round_half_even_le)
  have "of_int 0 \<le> x * 2 ^ d" using assms(1) by simp
  then have lo: "0 \<le> round_half_even (x / ulp x)"
    unfolding q by (rule round_half_even_ge)
  define r where "r = of_int (round_half_even (x / ulp x)) * ulp x"
  have r0: "0 \<le> r" using lo by (simp add: r_def u)
  have "of_int (round_half_even (x / ulp x)) \<le> (of_int (c * 2 ^ d) :: real)"
    using hi by (simp only: of_int_le_iff)
  then have rc: "r \<le> of_int c" by (simp add: r_def u field_simps)
  have "(2::real) ^ 52 < overflow_threshold" by (rule below_overflow_threshold) simp
  with rc c52 have "r < overflow_threshold" by linarith
  moreover have "0 < overflow_threshold" by (simp add: overflow_threshold_def)
  then have "- overflow_threshold < r" using r0 by linarith
  ultimately have "fl x = Num r" using False r_def [symmetric] by (intro fl_finite)
  with r0 rc show ?thesis by blast
qed

text \<open>The binade is the exponent of the value, and \<open>fl\<close> moves a value by half a unit
  in the last place at most.\<close>

lemma binade_ge:
  assumes "2 powi e \<le> \<bar>x\<bar>"
  shows "e \<le> binade x"
proof (cases "1 \<le> \<bar>x\<bar>")
  case True
  show ?thesis
  proof (cases "0 < e")
    case False
    have "1 \<le> \<lfloor>\<bar>x\<bar>\<rfloor>" using True by (simp add: le_floor_iff)
    then have "2 ^ (nat 1 - 1) \<le> \<lfloor>\<bar>x\<bar>\<rfloor>" by simp
    then have "1 \<le> bitlen \<lfloor>\<bar>x\<bar>\<rfloor>" by (simp only: bitlen_ge_iff_power) simp
    then show ?thesis using True False by (simp add: binade_def)
  next
    case pos: True
    have "(2::real) ^ nat e \<le> \<bar>x\<bar>" using assms pos by (simp add: power_int_def)
    then have "of_int (2 ^ nat e) \<le> \<bar>x\<bar>" by simp
    then have "2 ^ nat e \<le> \<lfloor>\<bar>x\<bar>\<rfloor>" by (simp only: le_floor_iff)
    moreover have "nat (e + 1) - 1 = nat e" using pos by (simp add: nat_add_distrib)
    ultimately have "2 ^ (nat (e + 1) - 1) \<le> \<lfloor>\<bar>x\<bar>\<rfloor>" by simp
    then have "e + 1 \<le> bitlen \<lfloor>\<bar>x\<bar>\<rfloor>" by (simp only: bitlen_ge_iff_power) simp
    then show ?thesis using True by (simp add: binade_def)
  qed
next
  case False
  have p: "0 < (2::real) powi e" by simp
  with assms have pos: "0 < \<bar>x\<bar>" by linarith
  have neg: "e < 0"
  proof (rule ccontr)
    assume "\<not> e < 0"
    then have "(2::real) powi 0 \<le> 2 powi e" by (intro power_int_increasing) simp_all
    with assms False show False by simp
  qed
  define w where "w = nat (- e)"
  have ew: "e = - int w" using neg by (simp add: w_def)
  have "1 / 2 ^ w \<le> \<bar>x\<bar>" using assms by (simp add: ew power_int_minus inverse_eq_divide)
  then have "1 / \<bar>x\<bar> \<le> 2 ^ w" using pos by (simp add: field_simps)
  then have "1 / \<bar>x\<bar> \<le> of_int (2 ^ w)" by simp
  then have "\<lceil>1 / \<bar>x\<bar>\<rceil> \<le> 2 ^ w" by (simp only: ceiling_le_iff)
  then have "\<lceil>1 / \<bar>x\<bar>\<rceil> - 1 < 2 ^ nat (int w)" by simp
  then have "bitlen (\<lceil>1 / \<bar>x\<bar>\<rceil> - 1) \<le> int w" by (simp add: bitlen_le_iff_power)
  then show ?thesis using False by (simp add: binade_def ew)
qed

lemma binade_exact:
  assumes "2 powi e \<le> \<bar>x\<bar>" and "\<bar>x\<bar> < 2 powi (e + 1)" and "- 1022 \<le> e"
  shows "binade x = e"
proof (rule antisym)
  have "0 < (2::real) powi e" by simp
  with assms(1) have "0 < \<bar>x\<bar>" by linarith
  then have "x \<noteq> 0" by simp
  then show "binade x \<le> e" using assms(2,3) by (rule binade_le)
  show "e \<le> binade x" using assms(1) by (rule binade_ge)
qed

lemma binade_subnormal: "- 1022 \<le> binade x"
  by (simp add: binade_def)

lemma round_half_even_near: "\<bar>q - of_int (round_half_even q)\<bar> \<le> 1 / 2"
proof -
  have "of_int \<lfloor>q\<rfloor> \<le> q" "q < of_int \<lfloor>q\<rfloor> + 1" by linarith+
  then show ?thesis by (auto simp add: round_half_even_def Let_def)
qed

lemma fl_near:
  assumes "fl x = Num r"
  shows "\<bar>x - r\<bar> \<le> ulp x / 2"
proof (cases "x = 0")
  case True
  then show ?thesis using assms by (simp add: fl_def ulp_def)
next
  case False
  have u: "0 < ulp x" by (simp add: ulp_def)
  have r: "r = of_int (round_half_even (x / ulp x)) * ulp x"
    using assms False by (auto simp add: fl_def Let_def split: if_splits)
  have "x - r = (x / ulp x - of_int (round_half_even (x / ulp x))) * ulp x"
    using u by (simp add: r left_diff_distrib)
  then have "\<bar>x - r\<bar> = \<bar>x / ulp x - of_int (round_half_even (x / ulp x))\<bar> * \<bar>ulp x\<bar>"
    by (simp only: abs_mult)
  also have "\<dots> = \<bar>x / ulp x - of_int (round_half_even (x / ulp x))\<bar> * ulp x"
    using u by simp
  also have "\<dots> \<le> 1 / 2 * ulp x"
    using round_half_even_near [of "x / ulp x"] u by (intro mult_right_mono) simp_all
  finally show ?thesis by simp
qed

lemma fl_int: "\<bar>m\<bar> < 2 ^ 53 \<Longrightarrow> fl (of_int m) = Num (of_int m)"
  using fl_exact [of m 0] by simp

lemma fl_dyadic:
  "\<bar>m\<bar> < 2 ^ 53 \<Longrightarrow> d \<le> 1074 \<Longrightarrow> fl (of_int m / 2 ^ d) = Num (of_int m / 2 ^ d)"
  using fl_exact [of m "- int d"] by (simp add: power_int_minus field_simps)

lemma fl_unit: "0 \<le> x \<Longrightarrow> x \<le> 1 \<Longrightarrow> unit_fraction (fl x)"
  using fl_bounded [of x 1] by auto

lemma unit_fraction_sub: "unit_fraction c \<Longrightarrow> unit_fraction (num_sub (Num 1) c)"
  by (cases c) (simp_all add: num_sub_def fl_unit)

lemma unit_fraction_add:
  "unit_fraction a \<Longrightarrow> unit_fraction b \<Longrightarrow> at_least 0 (num_add a b)"
proof (cases a; cases b)
  fix x y
  assume ab: "a = Num x" "b = Num y" and "unit_fraction a" "unit_fraction b"
  then have "0 \<le> x + y" "x + y \<le> of_int 2" by simp_all
  then obtain r where "fl (x + y) = Num r" "0 \<le> r"
    using fl_bounded [of "x + y" 2] by auto
  then show ?thesis by (simp add: ab)
qed simp_all

lemma default_impact_fraction: "unit_fraction DEFAULT_REBAL_SLIPPAGE"
  unfolding DEFAULT_REBAL_SLIPPAGE_def by (rule fl_unit) simp_all

lemma fl_nonzero:
  assumes "1 \<le> x * 2 ^ 52" and "x < 2"
  shows "fl x \<noteq> Num 0"
proof -
  have pos: "0 < x"
  proof (rule ccontr)
    assume "\<not> 0 < x"
    then have "x * 2 ^ 52 \<le> 0" by (simp add: mult_le_0_iff)
    with assms(1) show False by linarith
  qed
  then have nz: "x \<noteq> 0" by simp
  have "\<bar>x\<bar> < 2 powi (0 + 1)" using pos assms(2) by simp
  with nz have e: "binade x \<le> 0" by (rule binade_le) simp
  then have "0 \<le> 0 - (binade x - 52)" by simp
  then obtain d :: nat where "0 - (binade x - 52) = int d"
    using nonneg_int_cases by blast
  then have d: "binade x - 52 + int d = 0" and d52: "52 \<le> d" using e by simp_all
  have u: "ulp x = 1 / 2 ^ d" using ulp_eq [OF d] by simp
  have "(2::real) ^ 52 \<le> 2 ^ d" using d52 by (intro power_increasing) simp_all
  then have "x * 2 ^ 52 \<le> x * 2 ^ d" using pos by (intro mult_left_mono) simp_all
  with assms(1) have "1 \<le> x * 2 ^ d" by (rule order_trans)
  then have "of_int 1 \<le> x / ulp x" by (simp add: u)
  then have "1 \<le> round_half_even (x / ulp x)" by (rule round_half_even_ge)
  moreover have "0 < ulp x" by (simp add: ulp_def)
  ultimately have "0 < of_int (round_half_even (x / ulp x)) * ulp x"
    by (intro mult_pos_pos) simp_all
  then show ?thesis using nz
    by (auto simp add: fl_def Let_def split: if_splits)
qed

lemma default_impact_truthy: "truthy DEFAULT_REBAL_SLIPPAGE"
proof -
  have "fl 0.02 \<noteq> Num 0" by (rule fl_nonzero) simp_all
  moreover obtain r where "fl 0.02 = Num r"
    using fl_bounded [of "0.02" 1] by auto
  ultimately show ?thesis by (simp add: DEFAULT_REBAL_SLIPPAGE_def)
qed

text \<open>The last line of \<open>swapFraction\<close>, for a sum that is not negative.\<close>

lemma swapFraction_core:
  assumes "at_least 0 sp"
  shows "\<exists>f. BigNumber_from (num_floor (num_mul (num_min sp (Num 1)) (Num 10000))) = Inr f \<and>
           num_floor (num_mul (num_min sp (Num 1)) (Num 10000)) = Num (of_int f) \<and>
           0 \<le> f \<and> f \<le> 10000 \<and> (at_least 1 sp \<longrightarrow> f = 10000)"
proof -
  obtain m where m: "num_min sp (Num 1) = Num m" "0 \<le> m" "m \<le> 1"
    and full: "at_least 1 sp \<Longrightarrow> m = 1"
    using assms by (cases sp) (auto simp add: min_def)
  have "0 \<le> m * 10000" "m * 10000 \<le> of_int 10000" using m(2,3) by simp_all
  then obtain r where r: "fl (m * 10000) = Num r" "0 \<le> r" "r \<le> 10000"
    using fl_bounded [of "m * 10000" 10000] by auto
  define f where "f = \<lfloor>r\<rfloor>"
  have f0: "0 \<le> f" and f1: "f \<le> 10000"
    using r(2,3) by (simp_all add: f_def floor_le_iff le_floor_iff)
  have fl: "num_floor (num_mul (num_min sp (Num 1)) (Num 10000)) = Num (of_int f)"
    by (simp add: m(1) r(1) f_def)
  have "(of_int f :: real) \<le> 10000" using f1 by linarith
  moreover have "(0::real) \<le> of_int f" using f0 by simp
  ultimately have bn: "BigNumber_from (Num (of_int f)) = Inr f" by simp
  have top: "f = 10000" if "at_least 1 sp"
  proof -
    have "m = 1" using that by (rule full)
    moreover have "fl (of_int 10000) = Num (of_int 10000)" by (rule fl_int) simp
    ultimately have "r = 10000" using r(1) by simp
    then show ?thesis by (simp add: f_def)
  qed
  from fl bn f0 f1 top show ?thesis by auto
qed

lemma isBaseOutOfRange_spot:
  "spotTick p = Inr t \<Longrightarrow>
   isBaseOutOfRange p =
     (if snd (burnRange p) \<le> t then Inr True
      else if t < fst (burnRange p) then Inr False
      else Inl PositionNotOutOfRange)"
  by (simp add: isBaseOutOfRange_def)

lemma isBaseOutOfRange_in_range:
  "spotTick p = Inr t \<Longrightarrow> fst (burnRange p) \<le> t \<Longrightarrow> t < snd (burnRange p) \<Longrightarrow>
   isBaseOutOfRange p = Inl PositionNotOutOfRange"
  by (simp add: isBaseOutOfRange_spot)

lemma currentCollateral_returns:
  "isBaseOutOfRange p = Inr b \<Longrightarrow> spotPrice p = Inr s \<Longrightarrow>
   currentCollateral lib p =
     Inr ((if b then baseTokenForConcLiq lib else quoteTokenForConcLiq lib) s (liquidity p)
            (tickToPrice lib (fst (burnRange p))) (tickToPrice lib (snd (burnRange p))))"
  by (simp add: currentCollateral_def)

lemma balancePercent_returns:
  "isBaseOutOfRange p = Inr b \<Longrightarrow> spotPrice p = Inr s \<Longrightarrow>
   balancePercent lib p =
     Inr (case mintRange p of
            Ambient \<Rightarrow> Num 0.5
          | Concentrated r \<Rightarrow>
              (let baseQuoteBal = concDepositBalance lib s
                                    (tickToPrice lib (fst r)) (tickToPrice lib (snd r))
               in if b then num_sub (Num 1) baseQuoteBal else baseQuoteBal))"
  by (cases "mintRange p") (simp_all add: balancePercent_def Let_def)

lemma balancePercent_fraction:
  assumes "isBaseOutOfRange p = Inr b" and "spotPrice p = Inr s"
    and "\<And>r. mintRange p = Concentrated r \<Longrightarrow>
           unit_fraction (concDepositBalance lib s
                            (tickToPrice lib (fst r)) (tickToPrice lib (snd r)))"
  shows "\<exists>bp. balancePercent lib p = Inr bp \<and> unit_fraction bp"
proof (cases "mintRange p")
  case Ambient
  then show ?thesis by (simp add: balancePercent_def)
next
  case (Concentrated r)
  then show ?thesis
    using assms(3) [OF Concentrated]
    by (simp add: balancePercent_returns [OF assms(1,2)] Let_def unit_fraction_sub)
qed

lemma swapFraction_eq:
  "balancePercent lib p = Inr bp \<Longrightarrow>
   swapFraction lib p =
     BigNumber_from (num_floor (num_mul (num_min (num_add bp (impact p)) (Num 1)) (Num 10000)))"
  by (simp add: swapFraction_def)

lemma swapFraction_fraction:
  assumes "isBaseOutOfRange p = Inr b" and "spotPrice p = Inr s"
    and "unit_fraction (impact p)"
    and "\<And>r. mintRange p = Concentrated r \<Longrightarrow>
           unit_fraction (concDepositBalance lib s
                            (tickToPrice lib (fst r)) (tickToPrice lib (snd r)))"
  shows "\<exists>f. swapFraction lib p = Inr f \<and> 0 \<le> f \<and> f \<le> 10000"
proof -
  obtain bp where bp: "balancePercent lib p = Inr bp" "unit_fraction bp"
    using balancePercent_fraction [OF assms(1,2,4)] by blast
  have "at_least 0 (num_add bp (impact p))"
    using bp(2) assms(3) by (rule unit_fraction_add)
  then show ?thesis
    using swapFraction_core [of "num_add bp (impact p)"]
    by (auto simp add: swapFraction_eq [OF bp(1)])
qed

lemma convertCollateral_returns:
  "swapFraction lib p = Inr f \<Longrightarrow> currentCollateral lib p = Inr c \<Longrightarrow>
   convertCollateral lib p = Inr ((c * f) sdiv 10000)"
  by (simp add: convertCollateral_def)

lemma sdiv_share_le:
  fixes c f :: int
  assumes "0 \<le> c" and "f \<le> 10000"
  shows "(c * f) sdiv 10000 \<le> c"
proof (cases "0 \<le> f")
  case True
  then have nn: "0 \<le> c * f" using assms by simp
  have "c * f \<le> c * 10000" using assms by (simp add: mult_left_mono)
  then have "(c * f) div 10000 \<le> (c * 10000) div 10000" by (rule zdiv_mono1) simp
  moreover have "(c * f) sdiv 10000 = (c * f) div 10000"
    using nn by (simp add: signed_divide_int_def sgn_if)
  ultimately show ?thesis by simp
next
  case False
  then have "c * f \<le> 0" using assms by (simp add: mult_nonneg_nonpos)
  then have "(c * f) sdiv 10000 \<le> 0"
    by (simp add: signed_divide_int_def sgn_if pos_imp_zdiv_nonneg_iff)
  then show ?thesis using assms by simp
qed

lemmas directive_defs =
  new_OrderDirective_def appendHop_def appendPool_def appendPassive_def
  appendRangeBurn_def appendRangeMint_def appendAmbientMint_def set_last_rollType_def
  update_pool_def new_PoolDirective_def

lemma pivotTokens_returns:
  "isBaseOutOfRange p = Inr b \<Longrightarrow>
   pivotTokens p = Inr (if b then (baseToken (pool p), quoteToken (pool p))
                        else (quoteToken (pool p), baseToken (pool p)))"
  by (simp add: pivotTokens_def)

lemma setupSwap_returns:
  "swapFraction lib p = Inr f \<Longrightarrow> isBaseOutOfRange p = Inr b \<Longrightarrow> spotPrice p = Inr s \<Longrightarrow>
   setupSwap lib p r d =
     Inr (update_pool r
            (\<lambda>pl. pl\<lparr> pool_chain := (pool_chain pl)\<lparr> swapDefer := True \<rparr>,
                      pool_swap := (pool_swap pl)\<lparr>
                        rollType := 4, qty := f, isBuy := b, inBaseQty := b,
                        limitPrice := encodeCrocPrice lib
                          (num_mul s (if b then num_add (Num 1) (impact p)
                                      else num_sub (Num 1) (impact p))) \<rparr> \<rparr>)
            d)"
  by (simp add: setupSwap_def Let_def)

lemma formatDirective_returns:
  assumes oor: "isBaseOutOfRange p = Inr b" and sp: "spotPrice p = Inr s"
    and cx: "pool_context (pool p) = Inr cntx" and sf: "swapFraction lib p = Inr f"
  shows "formatDirective lib p =
    Inr \<lparr> open_settlement =
            \<lparr> token = tokenAddr (if b then baseToken (pool p) else quoteToken (pool p)),
              limitQty = 0 \<rparr>,
          hops =
            [\<lparr> settlement =
                 \<lparr> token = tokenAddr (if b then quoteToken (pool p) else baseToken (pool p)),
                   limitQty = 0 \<rparr>,
               pools =
                 [\<lparr> poolIdx = poolIndex cntx,
                     pool_passive =
                       [\<lparr> kind = RangeBurn,
                           ticks = Some (fst (burnRange p), snd (burnRange p)),
                           passive_liquidity = liquidity p, passive_rollType = 0 \<rparr>],
                     pool_swap =
                       \<lparr> isBuy = b, inBaseQty = b, rollType = 4, qty = f,
                         limitPrice = encodeCrocPrice lib
                           (num_mul s (if b then num_add (Num 1) (impact p)
                                       else num_sub (Num 1) (impact p))) \<rparr>,
                     pool_chain = \<lparr> swapDefer = True \<rparr> \<rparr>,
                  \<lparr> poolIdx = poolIndex cntx,
                     pool_passive =
                       [case mintRange p of
                          Ambient \<Rightarrow>
                            \<lparr> kind = AmbientMint, ticks = None,
                              passive_liquidity = 0, passive_rollType = 5 \<rparr>
                        | Concentrated r \<Rightarrow>
                            \<lparr> kind = RangeMint, ticks = Some (fst r, snd r),
                              passive_liquidity = 0, passive_rollType = 5 \<rparr>],
                     pool_swap = no_swap,
                     pool_chain = \<lparr> swapDefer = False \<rparr> \<rparr>] \<rparr>] \<rparr>"
  by (cases b; cases "mintRange p")
     (simp_all add: formatDirective_def pivotTokens_returns [OF oor]
        setupSwap_returns [OF sf oor sp] cx directive_defs no_swap_def Let_def)

lemma formatDirective_fails:
  "isBaseOutOfRange p = Inl e \<Longrightarrow> formatDirective lib p = Inl e"
  by (simp add: formatDirective_def pivotTokens_def)

lemma formatDirective_Inr_D:
  assumes "formatDirective lib p = Inr d"
  shows "\<exists>b s cntx f. isBaseOutOfRange p = Inr b \<and> spotPrice p = Inr s \<and>
           pool_context (pool p) = Inr cntx \<and> swapFraction lib p = Inr f"
proof -
  obtain b where b: "isBaseOutOfRange p = Inr b"
    using assms formatDirective_fails [of p _ lib] by (cases "isBaseOutOfRange p") auto
  obtain cntx where cx: "pool_context (pool p) = Inr cntx"
    using assms b
    by (cases "pool_context (pool p)")
       (auto simp add: formatDirective_def pivotTokens_def Let_def split: if_splits)
  obtain f where sf: "swapFraction lib p = Inr f"
    using assms b cx
    by (cases "swapFraction lib p")
       (auto simp add: formatDirective_def pivotTokens_def setupSwap_def Let_def split_beta
          split: if_splits)
  obtain s where sp: "spotPrice p = Inr s"
    using assms b cx sf
    by (cases "spotPrice p")
       (auto simp add: formatDirective_def pivotTokens_def setupSwap_def Let_def split_beta
          split: if_splits)
  from b sp cx sf show ?thesis by blast
qed

lemmas leg_defs =
  burn_legs_def swap_legs_def mint_legs_def legs_where_def pool_legs_def
  carries_burn_def carries_swap_def carries_mint_def legs_precede_def
  burn_precedes_swap_def swap_precedes_mint_def no_swap_def

text \<open>Facts about the fixtures.\<close>

lemma test_planner_fields:
  "spotTick (test_planner t m i) = Inr t"
  "spotPrice (test_planner t m i) = Inr (Num (3 / 2))"
  "burnRange (test_planner t m i) = (100, 200)"
  "mintRange (test_planner t m i) = m"
  "liquidity (test_planner t m i) = 1000000"
  "pool_context (pool (test_planner t m i)) = Inr \<lparr> poolIndex = 36000, proxyPaths_long = 4 \<rparr>"
  "impact (test_planner t m None) = DEFAULT_REBAL_SLIPPAGE"
  "truthy x \<Longrightarrow> impact (test_planner t m (Some x)) = x"
  by (simp_all add: test_defs)

lemma test_planner_direction:
  "200 \<le> t \<Longrightarrow> isBaseOutOfRange (test_planner t m i) = Inr True"
  "t < 100 \<Longrightarrow> isBaseOutOfRange (test_planner t m i) = Inr False"
  by (simp_all add: isBaseOutOfRange_spot test_planner_fields)

lemma test_lib_fraction:
  "unit_fraction (concDepositBalance test_lib s lo hi)"
  by (simp add: test_lib_def)

lemma fl_values:
  "fl (3 / 4) = Num (3 / 4)" "fl (5 / 4) = Num (5 / 4)" "fl (- (1 / 2)) = Num (- (1 / 2))"
  "fl (9 / 8) = Num (9 / 8)" "fl (15 / 8) = Num (15 / 8)"
  "fl 7500 = Num 7500" "fl (- 5000) = Num (- 5000)" "fl 1125 = Num 1125" "fl 1875 = Num 1875"
  using fl_dyadic [of 3 2] fl_dyadic [of 5 2] fl_dyadic [of "- 1" 1] fl_dyadic [of 9 3]
    fl_dyadic [of 15 3] fl_int [of 7500] fl_int [of "- 5000"] fl_int [of 1125] fl_int [of 1875]
  by simp_all

subsection \<open>Rounded values\<close>

text \<open>
  The value of \<open>fl x\<close> from the binade of \<open>x\<close> and the rounded quotient, and the model
  at inputs where the rounding shows: with the impact \<open>0.18\<close> the swap fraction is
  \<open>6799\<close>, since the double sum \<open>0.5 + 0.18\<close> is below \<open>0.68\<close>; with the impact
  \<open>0.01\<close> and the spot price \<open>1.5\<close> the limit price is taken of the double
  \<open>1.4849999999999999\<close>; with the impact \<open>- 1000000000000\<close> the scaled value is not a
  safe integer and \<open>BigNumber.from\<close> faults, also before the range error of
  \<open>convertCollateral\<close>.
\<close>

lemma divide_abs_le_self:
  fixes a b :: real
  assumes "0 \<le> a" and "1 \<le> b"
  shows "a / \<bar>b\<bar> \<le> a"
proof -
  have b: "0 < \<bar>b\<bar>" "1 \<le> \<bar>b\<bar>" using assms(2) by simp_all
  have "a * 1 \<le> a * \<bar>b\<bar>" using b(2) assms(1) by (rule mult_left_mono)
  then show ?thesis using b(1) by (simp add: pos_divide_le_eq)
qed

lemma fl_eval:
  assumes "x \<noteq> 0" and "binade x = e" and "e \<le> 52"
    and "round_half_even (x * 2 ^ nat (52 - e)) = n"
    and "\<bar>n\<bar> \<le> 2 ^ 53"
  shows "fl x = Num (of_int n / 2 ^ nat (52 - e))"
proof -
  have d: "binade x - 52 + int (nat (52 - e)) = 0" using assms(2,3) by simp
  have u: "ulp x = 1 / 2 ^ nat (52 - e)" using ulp_eq [OF d] by simp
  have r: "of_int (round_half_even (x / ulp x)) * ulp x = of_int n / 2 ^ nat (52 - e)"
    using assms(4) by (simp add: u)
  have "\<bar>of_int n :: real\<bar> \<le> 2 ^ 53"
  proof -
    have "(of_int \<bar>n\<bar> :: real) \<le> of_int (2 ^ 53)" using assms(5) by (simp only: of_int_le_iff)
    then show ?thesis by simp
  qed
  moreover have "\<bar>of_int n / 2 ^ nat (52 - e) :: real\<bar> \<le> \<bar>of_int n\<bar>"
    unfolding abs_divide by (rule divide_abs_le_self) simp_all
  ultimately have "\<bar>of_int n / 2 ^ nat (52 - e) :: real\<bar> \<le> 2 ^ 53"
    by (rule order_trans [rotated])
  moreover have "(2::real) ^ 53 < overflow_threshold" by (rule below_overflow_threshold) simp
  ultimately have "\<bar>of_int n / 2 ^ nat (52 - e) :: real\<bar> < overflow_threshold" by linarith
  then have "of_int n / 2 ^ nat (52 - e) < overflow_threshold"
    "- overflow_threshold < of_int n / 2 ^ nat (52 - e)" by linarith+
  with assms(1) r show ?thesis by (rule fl_finite)
qed

lemma double_0_18: "fl 0.18 = Num (3242591731706757 / 18014398509481984)"
proof -
  have b: "binade 0.18 = - 3" by (simp add: binade_def compute_bitlen)
  have r: "round_half_even (0.18 * 2 ^ nat (52 - (- 3))) = 6485183463413514"
    by (simp add: round_half_even_def Let_def)
  show ?thesis using fl_eval [OF _ b _ r] by simp
qed

lemma sum_0_18:
  "fl (12249790986447749 / 18014398509481984) = Num (3062447746611937 / 4503599627370496)"
proof -
  have b: "binade (12249790986447749 / 18014398509481984) = - 1"
    by (simp add: binade_def compute_bitlen)
  have r: "round_half_even (12249790986447749 / 18014398509481984 * 2 ^ nat (52 - (- 1)))
             = 6124895493223874"
    by (simp add: round_half_even_def Let_def)
  show ?thesis using fl_eval [OF _ b _ r] by simp
qed

lemma product_0_18:
  "fl (1914029841632460625 / 281474976710656) = Num (7476679068876799 / 1099511627776)"
proof -
  have b: "binade (1914029841632460625 / 281474976710656) = 12"
    by (simp add: binade_def compute_bitlen)
  have r: "round_half_even (1914029841632460625 / 281474976710656 * 2 ^ nat (52 - 12))
             = 7476679068876799"
    by (simp add: round_half_even_def Let_def)
  show ?thesis using fl_eval [OF _ b _ r] by simp
qed

lemma swapFraction_rounds_down:
  "swapFraction test_lib (test_planner 250 Ambient (Some (fl 0.18))) = Inr 6799"
  by (simp only: double_0_18)
     (simp add: swapFraction_def balancePercent_def test_planner_fields
        sum_0_18 product_0_18)

lemma double_0_01: "fl 0.01 = Num (5764607523034235 / 576460752303423488)"
proof -
  have b: "binade 0.01 = - 7" by (simp add: binade_def compute_bitlen)
  have r: "round_half_even (0.01 * 2 ^ nat (52 - (- 7))) = 5764607523034235"
    by (simp add: round_half_even_def Let_def)
  show ?thesis using fl_eval [OF _ b _ r] by simp
qed

lemma double_0_02: "DEFAULT_REBAL_SLIPPAGE = Num (5764607523034235 / 288230376151711744)"
proof -
  have b: "binade 0.02 = - 6" by (simp add: binade_def compute_bitlen)
  have r: "round_half_even (0.02 * 2 ^ nat (52 - (- 6))) = 5764607523034235"
    by (simp add: round_half_even_def Let_def)
  show ?thesis unfolding DEFAULT_REBAL_SLIPPAGE_def using fl_eval [OF _ b _ r] by simp
qed

lemma one_minus_0_01:
  "fl (570696144780389253 / 576460752303423488) = Num (4458563631096791 / 4503599627370496)"
proof -
  have b: "binade (570696144780389253 / 576460752303423488) = - 1"
    by (simp add: binade_def compute_bitlen)
  have r: "round_half_even (570696144780389253 / 576460752303423488 * 2 ^ nat (52 - (- 1)))
             = 8917127262193582"
    by (simp add: round_half_even_def Let_def)
  show ?thesis using fl_eval [OF _ b _ r] by simp
qed

lemma price_0_01:
  "fl (13375690893290373 / 9007199254740992) = Num (3343922723322593 / 2251799813685248)"
proof -
  have b: "binade (13375690893290373 / 9007199254740992) = 0"
    by (simp add: binade_def compute_bitlen)
  have r: "round_half_even (13375690893290373 / 9007199254740992 * 2 ^ nat (52 - 0))
             = 6687845446645186"
    by (simp add: round_half_even_def Let_def)
  show ?thesis using fl_eval [OF _ b _ r] by simp
qed

lemma encoded_0_01:
  "fl (417990340415324125 / 281474976710656) = Num (6531099068989439 / 4398046511104)"
proof -
  have b: "binade (417990340415324125 / 281474976710656) = 10"
    by (simp add: binade_def compute_bitlen)
  have r: "round_half_even (417990340415324125 / 281474976710656 * 2 ^ nat (52 - 10))
             = 6531099068989439"
    by (simp add: round_half_even_def Let_def)
  show ?thesis using fl_eval [OF _ b _ r] by simp
qed

lemma limit_price_rounds_down:
  "encodeCrocPrice test_lib
     (num_mul (Num (3 / 2)) (num_sub (Num 1) (fl 0.01))) = 1484"
  by (simp only: double_0_01)
     (simp add: test_lib_def num_sub_def one_minus_0_01 price_0_01 encoded_0_01)

lemma fl_unsafe_values:
  "fl (- (1999999999999 / 2)) = Num (- (1999999999999 / 2))"
  "fl (- 9999999999995000) = Num (- 9999999999995000)"
  using fl_dyadic [of "- 1999999999999" 1] fl_exact [of "- 1249999999999375" 3]
  by simp_all

lemma swapFraction_faults:
  "swapFraction test_lib (test_planner t Ambient (Some (Num (- 1000000000000))))
     = Inl NumericFault"
  by (simp add: swapFraction_def balancePercent_def test_planner_fields fl_unsafe_values)

lemma convertCollateral_faults_first:
  "convertCollateral test_lib (test_planner 150 Ambient (Some (Num (- 1000000000000))))
     = Inl NumericFault"
  by (simp add: convertCollateral_def swapFraction_faults)

subsection \<open>The direction test\<close>

text \<open>
  C4. For a planner whose spot tick has been read and whose burn range
  \<open>[lowerTick, upperTick]\<close> is a tick range (\<open>lowerTick \<le> upperTick\<close>; the data model
  asks \<open>lowerTick < upperTick\<close>), \<open>isBaseOutOfRange\<close> returns true exactly when
  \<open>spotTick \<ge> upperTick\<close>, returns false exactly when \<open>spotTick < lowerTick\<close>, and
  raises the not-out-of-range error exactly when \<open>lowerTick \<le> spotTick < upperTick\<close>. It
  has one of these three outcomes, so the three cases are exhaustive and exclude each
  other.
\<close>

theorem isBaseOutOfRange_three_cases:
  assumes "spotTick p = Inr spot" and "burnRange p = (lowerTick, upperTick)"
    and "lowerTick \<le> upperTick"
  shows "(isBaseOutOfRange p = Inr True \<longleftrightarrow> upperTick \<le> spot) \<and>
         (isBaseOutOfRange p = Inr False \<longleftrightarrow> spot < lowerTick) \<and>
         (isBaseOutOfRange p = Inl PositionNotOutOfRange \<longleftrightarrow> lowerTick \<le> spot \<and> spot < upperTick) \<and>
         isBaseOutOfRange p \<in> {Inr True, Inr False, Inl PositionNotOutOfRange}"
  using assms by (auto simp add: isBaseOutOfRange_spot)

theorem isBaseOutOfRange_three_cases_witness:
  "isBaseOutOfRange (test_planner 250 Ambient None) = Inr True \<and>
   isBaseOutOfRange (test_planner 50 Ambient None) = Inr False \<and>
   isBaseOutOfRange (test_planner 150 Ambient None) = Inl PositionNotOutOfRange"
  using isBaseOutOfRange_three_cases [of "test_planner 250 Ambient None" 250 100 200]
    isBaseOutOfRange_three_cases [of "test_planner 50 Ambient None" 50 100 200]
    isBaseOutOfRange_three_cases [of "test_planner 150 Ambient None" 150 100 200]
  by (simp add: test_planner_fields)

subsection \<open>The balance of an ambient target\<close>

text \<open>
  C6. For a planner whose mint target is the ambient sentinel, \<open>balancePercent()\<close> returns
  exactly \<open>0.5\<close>, whatever the spot price, the spot tick (read or not, in range or not)
  and the liquidity.
\<close>

theorem balancePercent_ambient:
  "mintRange p = Ambient \<Longrightarrow> balancePercent lib p = Inr (Num 0.5)"
  by (simp add: balancePercent_def)

theorem balancePercent_ambient_witness:
  "mintRange (test_planner 250 Ambient None) = Ambient \<and>
   balancePercent test_lib (test_planner 250 Ambient None) = Inr (Num 0.5)"
  using balancePercent_ambient [of "test_planner 250 Ambient None" test_lib]
  by (simp add: test_planner_fields)

subsection \<open>The impact option\<close>

text \<open>
  C9. A planner constructed with \<open>impact\<close> equal to \<open>0\<close> in the options has the
  default impact \<open>0.02\<close> (the double of that literal) and is the planner constructed with
  no impact option; no options at all give a planner whose impact is \<open>0\<close>.
\<close>

theorem zero_impact_is_default:
  "impact (new_CrocReposition pl target \<lparr> opts_impact = Some (Num 0) \<rparr>) = fl 0.02 \<and>
   new_CrocReposition pl target \<lparr> opts_impact = Some (Num 0) \<rparr> =
     new_CrocReposition pl target \<lparr> opts_impact = None \<rparr> \<and>
   impact (new_CrocReposition pl target opts) \<noteq> Num 0"
proof -
  have "DEFAULT_REBAL_SLIPPAGE \<noteq> Num 0"
  proof
    assume "DEFAULT_REBAL_SLIPPAGE = Num 0"
    with default_impact_truthy have "truthy (Num 0)" by simp
    then show False by simp
  qed
  moreover have "i \<noteq> Num 0" if "truthy i" for i using that by auto
  ultimately have "impact (new_CrocReposition pl target opts) \<noteq> Num 0"
    by (cases "opts_impact opts") (simp_all add: new_CrocReposition_def)
  then show ?thesis
    by (simp add: new_CrocReposition_def DEFAULT_REBAL_SLIPPAGE_def)
qed

subsection \<open>Splitting the collateral\<close>

text \<open>
  C2. For an out-of-range position whose spot price has been read, an impact in \<open>[0,1]\<close>
  and, for a concrete mint range, a balance fraction of \<open>concDepositBalance\<close> in
  \<open>[0,1]\<close>: \<open>currentCollateral()\<close>, \<open>swapFraction()\<close>, \<open>convertCollateral()\<close> and
  \<open>mintInput()\<close> return; \<open>convertCollateral()\<close> is
  \<open>currentCollateral() * swapFraction / 10000\<close> with the truncating integer division,
  and \<open>convertCollateral()\<close> plus the amount that \<open>mintInput()\<close> hands to the display
  conversion is \<open>currentCollateral()\<close> exactly.
\<close>

theorem convert_plus_mint_is_collateral:
  assumes "isBaseOutOfRange p = Inr b" and "spotPrice p = Inr s"
    and "unit_fraction (impact p)"
    and "\<And>r. mintRange p = Concentrated r \<Longrightarrow>
           unit_fraction (concDepositBalance lib s
                            (tickToPrice lib (fst r)) (tickToPrice lib (snd r)))"
  shows "\<exists>c f v m. currentCollateral lib p = Inr c \<and> swapFraction lib p = Inr f \<and>
           convertCollateral lib p = Inr v \<and> mintInput_collat lib p = Inr m \<and>
           v = (c * f) sdiv 10000 \<and> v + m = c \<and>
           mintInput lib p =
             toDisplay lib (if b then baseToken (pool p) else quoteToken (pool p)) m"
proof -
  obtain c where c: "currentCollateral lib p = Inr c"
    using currentCollateral_returns [OF assms(1,2)] by blast
  obtain f where f: "swapFraction lib p = Inr f"
    using swapFraction_fraction [OF assms] by blast
  have v: "convertCollateral lib p = Inr ((c * f) sdiv 10000)"
    using convertCollateral_returns [OF f c] .
  have m: "mintInput_collat lib p = Inr (c - (c * f) sdiv 10000)"
    by (simp add: mintInput_collat_def c v)
  have "mintInput lib p =
          toDisplay lib (if b then baseToken (pool p) else quoteToken (pool p))
            (c - (c * f) sdiv 10000)"
    by (simp add: mintInput_def m assms(1))
  with c f v m show ?thesis by simp
qed

theorem convert_plus_mint_is_collateral_witness:
  "isBaseOutOfRange (test_planner 250 (Concentrated (220, 300)) None) = Inr True \<and>
   spotPrice (test_planner 250 (Concentrated (220, 300)) None) = Inr (Num (3 / 2)) \<and>
   unit_fraction (impact (test_planner 250 (Concentrated (220, 300)) None)) \<and>
   unit_fraction (concDepositBalance test_lib (Num (3 / 2))
                    (tickToPrice test_lib 220) (tickToPrice test_lib 300)) \<and>
   (\<exists>c f v m.
      currentCollateral test_lib (test_planner 250 (Concentrated (220, 300)) None) = Inr c \<and>
      swapFraction test_lib (test_planner 250 (Concentrated (220, 300)) None) = Inr f \<and>
      convertCollateral test_lib (test_planner 250 (Concentrated (220, 300)) None) = Inr v \<and>
      mintInput_collat test_lib (test_planner 250 (Concentrated (220, 300)) None) = Inr m \<and>
      v = (c * f) sdiv 10000 \<and> v + m = c)"
proof -
  let ?p = "test_planner 250 (Concentrated (220, 300)) None"
  have oor: "isBaseOutOfRange ?p = Inr True" by (simp add: test_planner_direction)
  have sp: "spotPrice ?p = Inr (Num (3 / 2))" by (simp add: test_planner_fields)
  have im: "unit_fraction (impact ?p)"
    by (simp add: test_planner_fields default_impact_fraction)
  have hp: "unit_fraction (concDepositBalance test_lib (Num (3 / 2))
              (tickToPrice test_lib (fst r)) (tickToPrice test_lib (snd r)))" for r
    by (rule test_lib_fraction)
  show ?thesis
    using oor sp im hp [of "(220, 300)"]
      convert_plus_mint_is_collateral [OF oor sp im hp]
    by auto
qed

text \<open>
  C10. For an out-of-range position whose spot price has been read, an impact in
  \<open>[0,1]\<close> and, for a concrete mint range, a balance fraction of \<open>concDepositBalance\<close> in
  \<open>[0,1]\<close>: \<open>currentCollateral()\<close> and \<open>convertCollateral()\<close> return, and when the
  collateral is a non-negative amount \<open>convertCollateral()\<close> is at most
  \<open>currentCollateral()\<close>, because \<open>swapFraction\<close> never exceeds \<open>10000\<close>: the remainder
  that \<open>mintInput()\<close> computes is not negative.
\<close>

theorem convert_at_most_collateral:
  assumes "isBaseOutOfRange p = Inr b" and "spotPrice p = Inr s"
    and "unit_fraction (impact p)"
    and "\<And>r. mintRange p = Concentrated r \<Longrightarrow>
           unit_fraction (concDepositBalance lib s
                            (tickToPrice lib (fst r)) (tickToPrice lib (snd r)))"
  shows "\<exists>c v. currentCollateral lib p = Inr c \<and> convertCollateral lib p = Inr v \<and>
           mintInput_collat lib p = Inr (c - v) \<and>
           (0 \<le> c \<longrightarrow> v \<le> c \<and> 0 \<le> c - v)"
proof -
  obtain c where c: "currentCollateral lib p = Inr c"
    using currentCollateral_returns [OF assms(1,2)] by blast
  obtain f where f: "swapFraction lib p = Inr f" and f1: "f \<le> 10000"
    using swapFraction_fraction [OF assms] by blast
  have v: "convertCollateral lib p = Inr ((c * f) sdiv 10000)"
    using convertCollateral_returns [OF f c] .
  have m: "mintInput_collat lib p = Inr (c - (c * f) sdiv 10000)"
    by (simp add: mintInput_collat_def c v)
  have "0 \<le> c \<longrightarrow> (c * f) sdiv 10000 \<le> c"
    using f1 sdiv_share_le by blast
  with c v m show ?thesis by auto
qed

theorem convert_at_most_collateral_witness:
  "isBaseOutOfRange (test_planner 50 Ambient (Some (Num (1 / 4)))) = Inr False \<and>
   spotPrice (test_planner 50 Ambient (Some (Num (1 / 4)))) = Inr (Num (3 / 2)) \<and>
   unit_fraction (impact (test_planner 50 Ambient (Some (Num (1 / 4))))) \<and>
   currentCollateral test_lib (test_planner 50 Ambient (Some (Num (1 / 4)))) = Inr 3000000 \<and>
   convertCollateral test_lib (test_planner 50 Ambient (Some (Num (1 / 4)))) = Inr 2250000 \<and>
   mintInput_collat test_lib (test_planner 50 Ambient (Some (Num (1 / 4)))) = Inr 750000 \<and>
   (0::int) \<le> 3000000 \<and> (2250000::int) \<le> 3000000"
proof -
  let ?p = "test_planner 50 Ambient (Some (Num (1 / 4)))"
  have oor: "isBaseOutOfRange ?p = Inr False" by (simp add: test_planner_direction)
  have sp: "spotPrice ?p = Inr (Num (3 / 2))" by (simp add: test_planner_fields)
  have iv: "impact ?p = Num (1 / 4)" by (simp add: test_planner_fields)
  have im: "unit_fraction (impact ?p)" by (simp add: iv)
  have hp: "unit_fraction (concDepositBalance test_lib (Num (3 / 2))
              (tickToPrice test_lib (fst r)) (tickToPrice test_lib (snd r)))" for r
    by (rule test_lib_fraction)
  have c: "currentCollateral test_lib ?p = Inr 3000000"
    by (simp add: currentCollateral_returns [OF oor sp] test_planner_fields)
       (simp add: test_lib_def)
  have f: "swapFraction test_lib ?p = Inr 7500"
    by (simp add: swapFraction_def balancePercent_def test_planner_fields iv fl_values)
  have v: "convertCollateral test_lib ?p = Inr 2250000"
    by (simp add: convertCollateral_returns [OF f c] signed_divide_int_def)
  from convert_at_most_collateral [OF oor sp im hp]
  obtain c' v' where
    "currentCollateral test_lib ?p = Inr c'"
    "convertCollateral test_lib ?p = Inr v'"
    "mintInput_collat test_lib ?p = Inr (c' - v')"
    by blast
  with c v have "mintInput_collat test_lib ?p = Inr 750000" by simp
  with oor sp im c v show ?thesis by simp
qed

subsection \<open>The swap fraction\<close>

text \<open>
  C3, as stated: for every out-of-range position and every impact, \<open>swapFraction\<close> is in
  \<open>[0, 10000]\<close>. The constructor accepts a negative impact: with the ambient balance
  \<open>0.5\<close> and impact \<open>-1\<close> the planner above the range has the swap fraction
  \<open>-5000\<close> (all the values of this computation are doubles, nothing is rounded).
\<close>

theorem swapFraction_negative_counterexample:
  "isBaseOutOfRange (test_planner 250 Ambient (Some (Num (- 1)))) = Inr True \<and>
   swapFraction test_lib (test_planner 250 Ambient (Some (Num (- 1)))) = Inr (- 5000) \<and>
   (- 5000 :: int) \<notin> {0..10000}"
  by (simp add: test_planner_direction swapFraction_def balancePercent_def
        test_planner_fields fl_values)

text \<open>
  C3, amended. For an out-of-range position whose spot price has been read,
  \<open>balancePercent()\<close> returns, and for every impact for which the double sum
  \<open>balancePercent() + impact\<close> is not negative, \<open>swapFraction\<close> returns an integer in
  \<open>[0, 10000]\<close>: \<open>Math.floor(Math.min(balancePercent() + impact, 1.0) * 10000)\<close>, the
  sum and the product being those of double arithmetic (so \<open>6799\<close> for the balance
  \<open>0.5\<close> and the impact \<open>0.18\<close>). It is exactly \<open>10000\<close> whenever
  \<open>balancePercent() + impact \<ge> 1.0\<close>.
\<close>

theorem swapFraction_clamped:
  assumes "isBaseOutOfRange p = Inr b" and "spotPrice p = Inr s"
  shows "\<exists>bp. balancePercent lib p = Inr bp \<and>
           (at_least 0 (num_add bp (impact p)) \<longrightarrow>
              (\<exists>f. swapFraction lib p = Inr f \<and>
                 num_floor (num_mul (num_min (num_add bp (impact p)) (Num 1.0)) (Num 10000))
                   = Num (of_int f) \<and>
                 0 \<le> f \<and> f \<le> 10000 \<and>
                 (at_least 1.0 (num_add bp (impact p)) \<longrightarrow> f = 10000)))"
proof -
  obtain bp where bp: "balancePercent lib p = Inr bp"
    using balancePercent_returns [OF assms] by blast
  show ?thesis
    using swapFraction_core [of "num_add bp (impact p)"]
    by (auto simp add: bp swapFraction_eq [OF bp])
qed

theorem swapFraction_clamped_witness:
  "isBaseOutOfRange (test_planner 250 Ambient (Some (Num (3 / 4)))) = Inr True \<and>
   spotPrice (test_planner 250 Ambient (Some (Num (3 / 4)))) = Inr (Num (3 / 2)) \<and>
   balancePercent test_lib (test_planner 250 Ambient (Some (Num (3 / 4)))) = Inr (Num 0.5) \<and>
   num_add (Num 0.5) (impact (test_planner 250 Ambient (Some (Num (3 / 4))))) = Num (5 / 4) \<and>
   at_least 0 (Num (5 / 4)) \<and> at_least 1 (Num (5 / 4)) \<and>
   swapFraction test_lib (test_planner 250 Ambient (Some (Num (3 / 4)))) = Inr 10000 \<and>
   at_least 0 (num_add (Num 0.5) (impact (test_planner 250 Ambient (Some (fl 0.18))))) \<and>
   swapFraction test_lib (test_planner 250 Ambient (Some (fl 0.18))) = Inr 6799"
proof -
  let ?p = "test_planner 250 Ambient (Some (Num (3 / 4)))"
  let ?q = "test_planner 250 Ambient (Some (fl 0.18))"
  have oor: "isBaseOutOfRange ?p = Inr True" "isBaseOutOfRange ?q = Inr True"
    by (simp_all add: test_planner_direction)
  have sp: "spotPrice ?p = Inr (Num (3 / 2))" "spotPrice ?q = Inr (Num (3 / 2))"
    by (simp_all add: test_planner_fields)
  have bp: "balancePercent test_lib ?p = Inr (Num 0.5)"
    "balancePercent test_lib ?q = Inr (Num 0.5)"
    by (simp_all add: balancePercent_def test_planner_fields)
  have sum: "num_add (Num 0.5) (impact ?p) = Num (5 / 4)"
    by (simp add: test_planner_fields fl_values)
  from swapFraction_clamped [OF oor(1) sp(1), of test_lib] bp(1) sum
  have top: "swapFraction test_lib ?p = Inr 10000" by auto
  have sum': "num_add (Num 0.5) (impact ?q) = Num (3062447746611937 / 4503599627370496)"
    by (simp only: double_0_18) (simp add: test_planner_fields sum_0_18)
  have nn: "at_least 0 (num_add (Num 0.5) (impact ?q))" by (simp only: sum') simp
  have fl: "num_floor (num_mul (num_min (num_add (Num 0.5) (impact ?q)) (Num 1.0)) (Num 10000))
              = Num (of_int 6799)"
    by (simp only: sum') (simp add: product_0_18)
  from swapFraction_clamped [OF oor(2) sp(2), of test_lib] bp(2) nn
  obtain f where f: "swapFraction test_lib ?q = Inr f"
    "num_floor (num_mul (num_min (num_add (Num 0.5) (impact ?q)) (Num 1.0)) (Num 10000))
       = Num (of_int f)"
    by auto
  from f(2) fl have "f = 6799" by simp
  with f(1) have low: "swapFraction test_lib ?q = Inr 6799" by simp
  from oor sp bp sum top nn low show ?thesis by simp
qed

subsection \<open>Ticks and prices\<close>

text \<open>
  C8. On the logarithmic scale of a base greater than \<open>1\<close>, for all integer ticks
  \<open>t1 < t2\<close> the price of \<open>t1\<close> is below the price of \<open>t2\<close>: the tick-to-price
  conversion is strictly increasing over all ticks.
\<close>

theorem tickToPrice_strictly_increasing:
  "1 < base \<Longrightarrow> t1 < t2 \<Longrightarrow> tickToPrice_scale base t1 < tickToPrice_scale base t2"
  unfolding tickToPrice_scale_def by (rule power_int_strict_increasing)

theorem tickToPrice_strictly_increasing_witness:
  "(1::real) < 1.0001 \<and> (- 1 :: int) < 2 \<and>
   tickToPrice_scale 1.0001 (- 1) < tickToPrice_scale 1.0001 2"
proof -
  have b: "(1::real) < 1.0001" by simp
  have t: "(- 1 :: int) < 2" by simp
  show ?thesis using b t tickToPrice_strictly_increasing [OF b t] by simp
qed

subsection \<open>The order of the legs of the directive\<close>

text \<open>
  C5, as stated: the pool leg with the range burn precedes the pool leg with the swap.
  In the directive of the planner above the range the burn and the swap are on the same
  pool leg, at position \<open>0\<close>: \<open>setupSwap\<close> assigns to the pool leg that
  \<open>appendRangeBurn\<close> has just filled, and the second \<open>appendPool\<close> comes after both.
\<close>

theorem burn_and_swap_share_leg_counterexample:
  "then_promise (formatDirective test_lib (test_planner 250 Ambient None)) burn_legs = Inr [0] \<and>
   then_promise (formatDirective test_lib (test_planner 250 Ambient None)) swap_legs = Inr [0] \<and>
   then_promise (formatDirective test_lib (test_planner 250 Ambient None)) burn_precedes_swap
     = Inr False"
proof -
  let ?p = "test_planner 250 Ambient None"
  have oor: "isBaseOutOfRange ?p = Inr True" by (simp add: test_planner_direction)
  have sp: "spotPrice ?p = Inr (Num (3 / 2))" by (simp add: test_planner_fields)
  have cx: "pool_context (pool ?p) = Inr \<lparr> poolIndex = 36000, proxyPaths_long = 4 \<rparr>"
    by (simp add: test_planner_fields)
  have im: "unit_fraction (impact ?p)"
    by (simp add: test_planner_fields default_impact_fraction)
  obtain f where sf: "swapFraction test_lib ?p = Inr f"
    using swapFraction_fraction [OF oor sp im test_lib_fraction] by blast
  have mr: "mintRange ?p = Ambient" by (simp add: test_planner_fields)
  show ?thesis
    by (simp add: formatDirective_returns [OF oor sp cx sf] leg_defs mr)
qed

text \<open>
  C5, amended. In every directive the planner constructs, the range burn and the swap are
  attached to the same pool-leg occurrence, the first (its swap deferred after the burn),
  which precedes the second pool-leg occurrence, the one that carries the mint (range or
  ambient); there is one hop, both pool legs reference the same pool index, the one of the
  context, and \<open>open.limitQty\<close> and the settlement leg's \<open>limitQty\<close> are both \<open>0\<close>.
\<close>

theorem directive_leg_order:
  assumes "formatDirective lib p = Inr d"
  shows "burn_legs d = [0] \<and> swap_legs d = [0] \<and> mint_legs d = [1] \<and>
         swap_precedes_mint d \<and>
         (\<exists>h pl0 pl1. hops d = [h] \<and> pools h = [pl0, pl1] \<and>
            swapDefer (pool_chain pl0) \<and> poolIdx pl0 = poolIdx pl1 \<and>
            then_promise (pool_context (pool p)) poolIndex = Inr (poolIdx pl0) \<and>
            limitQty (settlement h) = 0) \<and>
         limitQty (open_settlement d) = 0"
proof -
  obtain b s cntx f where oor: "isBaseOutOfRange p = Inr b" and sp: "spotPrice p = Inr s"
    and cx: "pool_context (pool p) = Inr cntx" and sf: "swapFraction lib p = Inr f"
    using formatDirective_Inr_D [OF assms] by blast
  note d = assms [unfolded formatDirective_returns [OF oor sp cx sf], simplified, symmetric]
  show ?thesis
    by (cases "mintRange p") (simp_all add: d leg_defs cx)
qed

theorem directive_leg_order_witness:
  "\<exists>d. formatDirective test_lib (test_planner 50 (Concentrated (0, 60)) None) = Inr d \<and>
       burn_legs d = [0] \<and> swap_legs d = [0] \<and> mint_legs d = [1] \<and>
       map poolIdx (pool_legs d) = [36000, 36000] \<and>
       limitQty (open_settlement d) = 0 \<and> map limitQty (map settlement (hops d)) = [0]"
proof -
  let ?p = "test_planner 50 (Concentrated (0, 60)) None"
  have oor: "isBaseOutOfRange ?p = Inr False" by (simp add: test_planner_direction)
  have sp: "spotPrice ?p = Inr (Num (3 / 2))" by (simp add: test_planner_fields)
  have cx: "pool_context (pool ?p) = Inr \<lparr> poolIndex = 36000, proxyPaths_long = 4 \<rparr>"
    by (simp add: test_planner_fields)
  have im: "unit_fraction (impact ?p)"
    by (simp add: test_planner_fields default_impact_fraction)
  obtain f where sf: "swapFraction test_lib ?p = Inr f"
    using swapFraction_fraction [OF oor sp im test_lib_fraction] by blast
  obtain d where d: "formatDirective test_lib ?p = Inr d"
    using formatDirective_returns [OF oor sp cx sf] by blast
  from directive_leg_order [OF d] cx show ?thesis
    unfolding d by (auto simp add: pool_legs_def)
qed

subsection \<open>The limit price of the swap\<close>

text \<open>
  C7. For an out-of-range position whose spot price and context have been read and whose
  swap fraction is computed, the directive is built, its swap is on the first pool leg,
  and the limit price of that swap is the encoding (\<open>encodeCrocPrice\<close>) of the spot price
  multiplied by \<open>1 + impact\<close> when the base asset is sold (base out of range: the base
  token is the first of \<open>pivotTokens\<close>), and by \<open>1 - impact\<close> when it is bought (quote
  out of range); the sum, the difference and the product are those of double arithmetic,
  as the planner computes them.
\<close>

theorem swap_limit_price:
  assumes "isBaseOutOfRange p = Inr b" and "spotPrice p = Inr s"
    and "pool_context (pool p) = Inr cntx" and "swapFraction lib p = Inr f"
  shows "\<exists>d h pl rest.
           pivotTokens p = Inr (if b then (baseToken (pool p), quoteToken (pool p))
                                else (quoteToken (pool p), baseToken (pool p))) \<and>
           formatDirective lib p = Inr d \<and> hops d = [h] \<and> pools h = pl # rest \<and>
           swap_legs d = [0] \<and>
           isBuy (pool_swap pl) = b \<and> inBaseQty (pool_swap pl) = b \<and>
           limitPrice (pool_swap pl) =
             encodeCrocPrice lib
               (num_mul s (if b then num_add (Num 1) (impact p)
                           else num_sub (Num 1) (impact p)))"
  by (simp add: formatDirective_returns [OF assms] pivotTokens_returns [OF assms(1)] leg_defs)

theorem swap_limit_price_witness:
  "isBaseOutOfRange (test_planner 250 Ambient (Some (Num (1 / 4)))) = Inr True \<and>
   swapFraction test_lib (test_planner 250 Ambient (Some (Num (1 / 4)))) = Inr 7500 \<and>
   (\<exists>d h pl rest.
      formatDirective test_lib (test_planner 250 Ambient (Some (Num (1 / 4)))) = Inr d \<and>
      hops d = [h] \<and> pools h = pl # rest \<and> limitPrice (pool_swap pl) = 1875) \<and>
   isBaseOutOfRange (test_planner 50 Ambient (Some (fl 0.01))) = Inr False \<and>
   (\<exists>d h pl rest.
      formatDirective test_lib (test_planner 50 Ambient (Some (fl 0.01))) = Inr d \<and>
      hops d = [h] \<and> pools h = pl # rest \<and> limitPrice (pool_swap pl) = 1484)"
proof -
  let ?a = "test_planner 250 Ambient (Some (Num (1 / 4)))"
  let ?b = "test_planner 50 Ambient (Some (fl 0.01))"
  have oor: "isBaseOutOfRange ?a = Inr True" "isBaseOutOfRange ?b = Inr False"
    by (simp_all add: test_planner_direction)
  have sp: "spotPrice ?a = Inr (Num (3 / 2))" "spotPrice ?b = Inr (Num (3 / 2))"
    by (simp_all add: test_planner_fields)
  have cx: "pool_context (pool ?a) = Inr \<lparr> poolIndex = 36000, proxyPaths_long = 4 \<rparr>"
    "pool_context (pool ?b) = Inr \<lparr> poolIndex = 36000, proxyPaths_long = 4 \<rparr>"
    by (simp_all add: test_planner_fields)
  have ima: "impact ?a = Num (1 / 4)" by (simp add: test_planner_fields)
  have "truthy (fl 0.01)" by (simp only: double_0_01) simp
  then have imb: "impact ?b = fl 0.01" by (rule test_planner_fields)
  have sfa: "swapFraction test_lib ?a = Inr 7500"
    by (simp add: swapFraction_def balancePercent_def test_planner_fields fl_values)
  have "unit_fraction (impact ?b)" unfolding imb by (rule fl_unit) simp_all
  then obtain f where sfb: "swapFraction test_lib ?b = Inr f"
    using swapFraction_fraction [OF oor(2) sp(2) _ test_lib_fraction] by blast
  have above: "encodeCrocPrice test_lib
                 (num_mul (Num (3 / 2)) (num_add (Num 1) (impact ?a))) = 1875"
    by (simp add: ima test_lib_def fl_values)
  have below: "encodeCrocPrice test_lib
                 (num_mul (Num (3 / 2)) (num_sub (Num 1) (impact ?b))) = 1484"
    unfolding imb by (rule limit_price_rounds_down)
  show ?thesis
    using swap_limit_price [OF oor(1) sp(1) cx(1) sfa]
      swap_limit_price [OF oor(2) sp(2) cx(2) sfb] oor sfa above below
    by (simp del: One_nat_def) metis
qed

subsection \<open>A position that is still in range\<close>

text \<open>
  C1, as stated: with the spot tick inside the burn range every public method fails,
  \<open>balancePercent\<close> included, whatever the mint target. For the ambient target
  \<open>balancePercent\<close> returns \<open>0.5\<close> without looking at the spot tick: at spot tick
  \<open>150\<close> in \<open>[100, 200]\<close> it returns.
\<close>

theorem balancePercent_in_range_counterexample:
  "spotTick (test_planner 150 Ambient None) = Inr 150 \<and>
   burnRange (test_planner 150 Ambient None) = (100, 200) \<and>
   isBaseOutOfRange (test_planner 150 Ambient None) = Inl PositionNotOutOfRange \<and>
   balancePercent test_lib (test_planner 150 Ambient None) = Inr (Num 0.5)"
  by (simp add: test_planner_fields isBaseOutOfRange_spot balancePercent_def)

text \<open>
  C1, amended. For every planner whose spot price and spot tick have been read and whose
  burn range contains the spot tick (\<open>lowerTick \<le> spotTick < upperTick\<close>),
  \<open>currentCollateral\<close>, \<open>mintInput\<close>, \<open>swapOutput\<close>, \<open>postBalance\<close>, the building
  of the directive, \<open>rebal\<close> and \<open>simStatic\<close> fail with the \<open>PositionNotOutOfRange\<close>
  error, for an ambient and for a concrete mint target; \<open>balancePercent\<close> fails with it
  for a concrete mint range and returns \<open>0.5\<close> for the ambient target;
  \<open>convertCollateral\<close> returns no value either, and its error is
  \<open>PositionNotOutOfRange\<close> for a concrete mint range, and for the ambient target
  whenever the double sum \<open>0.5 + impact\<close> is not negative.
\<close>

theorem in_range_methods_fail:
  assumes "spotTick p = Inr t" and "fst (burnRange p) \<le> t" and "t < snd (burnRange p)"
    and "spotPrice p = Inr s"
  shows "currentCollateral lib p = Inl PositionNotOutOfRange \<and>
         mintInput lib p = Inl PositionNotOutOfRange \<and>
         swapOutput lib p = Inl PositionNotOutOfRange \<and>
         postBalance lib p = Inl PositionNotOutOfRange \<and>
         formatDirective lib p = Inl PositionNotOutOfRange \<and>
         rebal lib p = Inl PositionNotOutOfRange \<and>
         simStatic lib p = Inl PositionNotOutOfRange \<and>
         balancePercent lib p =
           (case mintRange p of Ambient \<Rightarrow> Inr (Num 0.5)
            | Concentrated r \<Rightarrow> Inl PositionNotOutOfRange) \<and>
         (\<exists>e. convertCollateral lib p = Inl e) \<and>
         (mintRange p \<noteq> Ambient \<longrightarrow> convertCollateral lib p = Inl PositionNotOutOfRange) \<and>
         (at_least 0 (num_add (Num 0.5) (impact p)) \<longrightarrow>
            convertCollateral lib p = Inl PositionNotOutOfRange)"
proof -
  have inr: "isBaseOutOfRange p = Inl PositionNotOutOfRange"
    using assms(1-3) by (rule isBaseOutOfRange_in_range)
  have cc: "currentCollateral lib p = Inl PositionNotOutOfRange"
    by (simp add: currentCollateral_def inr)
  have bp: "balancePercent lib p =
              (case mintRange p of Ambient \<Rightarrow> Inr (Num 0.5)
               | Concentrated r \<Rightarrow> Inl PositionNotOutOfRange)"
    by (cases "mintRange p") (simp_all add: balancePercent_def inr assms(4) Let_def)
  have cv: "convertCollateral lib p =
              (case swapFraction lib p of Inl e \<Rightarrow> Inl e
               | Inr f \<Rightarrow> Inl PositionNotOutOfRange)"
    by (cases "swapFraction lib p") (simp_all add: convertCollateral_def cc)
  have cv1: "\<exists>e. convertCollateral lib p = Inl e"
    by (cases "swapFraction lib p") (simp_all add: cv)
  have cv2: "convertCollateral lib p = Inl PositionNotOutOfRange" if "mintRange p \<noteq> Ambient"
    using that by (cases "mintRange p") (simp_all add: cv swapFraction_def bp)
  have cv3: "convertCollateral lib p = Inl PositionNotOutOfRange"
    if nn: "at_least 0 (num_add (Num 0.5) (impact p))"
  proof (cases "mintRange p")
    case Ambient
    then have b: "balancePercent lib p = Inr (Num 0.5)" by (simp add: bp)
    obtain f where "swapFraction lib p = Inr f"
      using swapFraction_core [OF nn] by (auto simp add: swapFraction_eq [OF b])
    then show ?thesis by (simp add: cv)
  next
    case (Concentrated r)
    then show ?thesis using cv2 by simp
  qed
  have mc: "mintInput_collat lib p = Inl PositionNotOutOfRange"
    by (simp add: mintInput_collat_def cc)
  have mi: "mintInput lib p = Inl PositionNotOutOfRange"
    by (simp add: mintInput_def mc)
  have so: "swapOutput lib p = Inl PositionNotOutOfRange"
    by (simp add: swapOutput_def pivotTokens_def inr)
  have pb: "postBalance lib p = Inl PositionNotOutOfRange"
    by (simp add: postBalance_def inr Let_def)
  have fd: "formatDirective lib p = Inl PositionNotOutOfRange"
    using inr by (rule formatDirective_fails)
  have rb: "rebal lib p = Inl PositionNotOutOfRange"
    by (simp add: rebal_def fd)
  have ss: "simStatic lib p = Inl PositionNotOutOfRange"
    by (simp add: simStatic_def fd)
  from cc bp cv1 cv2 cv3 mi so pb fd rb ss show ?thesis by blast
qed

theorem in_range_methods_fail_witness:
  "spotTick (test_planner 150 (Concentrated (220, 300)) None) = Inr 150 \<and>
   fst (burnRange (test_planner 150 (Concentrated (220, 300)) None)) \<le> 150 \<and>
   150 < snd (burnRange (test_planner 150 (Concentrated (220, 300)) None)) \<and>
   spotPrice (test_planner 150 (Concentrated (220, 300)) None) = Inr (Num (3 / 2)) \<and>
   mintRange (test_planner 150 (Concentrated (220, 300)) None) \<noteq> Ambient \<and>
   balancePercent test_lib (test_planner 150 (Concentrated (220, 300)) None)
     = Inl PositionNotOutOfRange \<and>
   convertCollateral test_lib (test_planner 150 (Concentrated (220, 300)) None)
     = Inl PositionNotOutOfRange \<and>
   rebal test_lib (test_planner 150 (Concentrated (220, 300)) None)
     = Inl PositionNotOutOfRange \<and>
   at_least 0 (num_add (Num 0.5) (impact (test_planner 150 Ambient (Some (Num (1 / 4)))))) \<and>
   convertCollateral test_lib (test_planner 150 Ambient (Some (Num (1 / 4))))
     = Inl PositionNotOutOfRange"
proof -
  let ?p = "test_planner 150 (Concentrated (220, 300)) None"
  let ?q = "test_planner 150 Ambient (Some (Num (1 / 4)))"
  have t: "spotTick ?p = Inr 150" "spotTick ?q = Inr 150" by (simp_all add: test_planner_fields)
  have lo: "fst (burnRange ?p) \<le> 150" "fst (burnRange ?q) \<le> 150"
    by (simp_all add: test_planner_fields)
  have hi: "150 < snd (burnRange ?p)" "150 < snd (burnRange ?q)"
    by (simp_all add: test_planner_fields)
  have sp: "spotPrice ?p = Inr (Num (3 / 2))" "spotPrice ?q = Inr (Num (3 / 2))"
    by (simp_all add: test_planner_fields)
  have mr: "mintRange ?p = Concentrated (220, 300)" by (simp add: test_planner_fields)
  have nn: "at_least 0 (num_add (Num 0.5) (impact ?q))"
    by (simp add: test_planner_fields fl_values)
  show ?thesis
    using t lo hi sp nn in_range_methods_fail [OF t(1) lo(1) hi(1) sp(1), of test_lib]
      in_range_methods_fail [OF t(2) lo(2) hi(2) sp(2), of test_lib]
    by (simp add: mr)
qed

end
